theory Spec2Isabelle
  imports Complex_Main
begin

section \<open>Session persistence of the Pachi Hacker-Text-Editor\<close>

text \<open>
  A shallow embedding of the session code of \<^verbatim>\<open>Pachi-hacker-Text-Editor.py\<close>:
  \<^verbatim>\<open>EditorTab.__init__\<close>, \<^verbatim>\<open>EditorTab.filename\<close>, \<^verbatim>\<open>HackerEditor.new_tab\<close>,
  \<^verbatim>\<open>HackerEditor.load_session\<close>, \<^verbatim>\<open>HackerEditor.auto_save_session\<close> and the handlers
  that touch the tab list. Python values read from the session file are dynamically
  typed, so they are modelled by a datatype of JSON values; every exception the code can
  raise is a value of \<open>error\<close>; the widgets of the GUI toolkit, the JSON library and
  the file system are outside the repository and appear as parameters.
\<close>

subsection \<open>Python values and exceptions\<close>

text \<open>
  What \<^verbatim>\<open>json.load\<close> returns: \<^verbatim>\<open>None\<close>, a bool, an int, a float, a str, a list or a
  dict. A dict is an association list in insertion order; the parser returns dicts, so
  keys are not repeated. Floats are reals (the non-finite floats are left out).
\<close>

datatype json =
    JNull
  | JBool bool
  | JInt int
  | JFloat real
  | JStr string
  | JArr "json list"
  | JObj "(string \<times> json) list"

datatype error =
    JSONDecodeError
  | TypeError
  | AttributeError
  | ValueError
  | FileNotFoundError
  | PermissionError
  | IsADirectoryError
  | UnicodeDecodeError
  | OSError

text \<open>Truth value testing, as \<^verbatim>\<open>if path:\<close> applies it.\<close>

fun truthy :: "json \<Rightarrow> bool" where
  "truthy JNull = False"
| "truthy (JBool b) = b"
| "truthy (JInt n) = (n \<noteq> 0)"
| "truthy (JFloat r) = (r \<noteq> 0)"
| "truthy (JStr s) = (s \<noteq> [])"
| "truthy (JArr xs) = (xs \<noteq> [])"
| "truthy (JObj kvs) = (kvs \<noteq> [])"

text \<open>
  \<^verbatim>\<open>item.get(key)\<close>: only a dict has the method; a missing key gives \<^verbatim>\<open>None\<close>.
\<close>

fun py_get :: "json \<Rightarrow> string \<Rightarrow> error + json" where
  "py_get (JObj kvs) k = Inr (case map_of kvs k of None \<Rightarrow> JNull | Some v \<Rightarrow> v)"
| "py_get _ k = Inl AttributeError"

text \<open>
  \<^verbatim>\<open>for item in data\<close>: a list gives its elements, a dict its keys, a str its
  characters; nothing else is iterable.
\<close>

fun py_iter :: "json \<Rightarrow> error + json list" where
  "py_iter (JArr xs) = Inr xs"
| "py_iter (JObj kvs) = Inr (map (\<lambda>kv. JStr (fst kv)) kvs)"
| "py_iter (JStr s) = Inr (map (\<lambda>c. JStr [c]) s)"
| "py_iter _ = Inl TypeError"

text \<open>\<^verbatim>\<open>os.path.basename\<close> (POSIX): what follows the last slash.\<close>

definition basename :: "string \<Rightarrow> string" where
  "basename p = rev (takeWhile (\<lambda>c. c \<noteq> CHR ''/'') (rev p))"

text \<open>
  \<^verbatim>\<open>os.path.join(a, b)\<close> (POSIX) for a relative \<open>b\<close>: a slash is put between the two
  unless \<open>a\<close> is empty or ends with one.
\<close>

definition path_join :: "string \<Rightarrow> string \<Rightarrow> string" where
  "path_join a b = (if a = [] \<or> last a = CHR ''/'' then a @ b else a @ ''/'' @ b)"

subsection \<open>The file system\<close>

text \<open>
  A path names nothing (\<open>None\<close>), or something that opening and reading as UTF-8 text
  either refuses with an exception (a directory, a file without permission, bytes that do
  not decode) or returns as a text. \<open>fds\<close> is what opening and reading an integer file
  descriptor gives. \<open>wfault\<close> is what the operating system will do to a write of a path:
  let it through, refuse to open the file, or fail after some characters reached the file
  (which \<^verbatim>\<open>open(p, "w")\<close> had truncated).
\<close>

datatype write_fault = NoFault | OpenFault error | WriteFault nat error

record filesystem =
  files :: "string \<rightharpoonup> (error + string)"
  fds :: "int \<Rightarrow> error + string"
  wfault :: "string \<Rightarrow> write_fault"

text \<open>\<^verbatim>\<open>os.path.exists(p)\<close>; a path with a NUL character names nothing.\<close>

definition path_exists :: "filesystem \<Rightarrow> string \<Rightarrow> bool" where
  "path_exists d p = (CHR 0x00 \<notin> set p \<and> files d p \<noteq> None)"

text \<open>
  \<^verbatim>\<open>open(name, encoding="utf-8")\<close> followed by \<^verbatim>\<open>read()\<close>. A str is a path, an int
  (and a bool, which is an int) a file descriptor; any other value is a \<^verbatim>\<open>TypeError\<close>.
\<close>

fun open_read :: "filesystem \<Rightarrow> json \<Rightarrow> error + string" where
  "open_read d (JStr p) =
     (if CHR 0x00 \<in> set p then Inl ValueError
      else case files d p of None \<Rightarrow> Inl FileNotFoundError | Some r \<Rightarrow> r)"
| "open_read d (JInt n) = fds d n"
| "open_read d (JBool b) = fds d (if b then 1 else 0)"
| "open_read d _ = Inl TypeError"

text \<open>
  \<^verbatim>\<open>with open(p, "w", encoding="utf-8") as f:\<close> and the writing of \<open>txt\<close> to \<open>f\<close>. The
  result is the exception raised, if any, with the file system as the write left it. A
  path with a NUL character is refused with \<^verbatim>\<open>ValueError\<close>.
\<close>

definition write_text :: "filesystem \<Rightarrow> string \<Rightarrow> string \<Rightarrow> error option \<times> filesystem" where
  "write_text d p txt =
     (if CHR 0x00 \<in> set p then (Some ValueError, d)
      else case wfault d p of
        NoFault \<Rightarrow> (None, d\<lparr>files := (files d)(p \<mapsto> Inr txt)\<rparr>)
      | OpenFault e \<Rightarrow> (Some e, d)
      | WriteFault n e \<Rightarrow> (Some e, d\<lparr>files := (files d)(p \<mapsto> Inr (take n txt))\<rparr>))"

subsection \<open>The toolkit and the libraries\<close>

text \<open>
  The code outside the repository that the session code calls. \<open>'w\<close> is the state of a
  \<^verbatim>\<open>QTextEdit\<close> widget; \<open>QTextEdit\<close> is a newly constructed one. \<open>tempdir\<close> is what
  \<^verbatim>\<open>tempfile.gettempdir()\<close> returns. \<open>json_loads\<close> is the parser behind \<^verbatim>\<open>json.load\<close>
  (\<open>None\<close> when it raises \<^verbatim>\<open>JSONDecodeError\<close>), \<open>json_dumps\<close> the text \<^verbatim>\<open>json.dump\<close>
  writes. \<open>odf_write\<close> and \<open>pdf_print\<close> are what \<^verbatim>\<open>QTextDocumentWriter.write\<close> and
  \<^verbatim>\<open>QTextDocument.print_\<close> do to the file system; neither raises.
\<close>

record 'w toolkit =
  tempdir :: string
  json_loads :: "string \<Rightarrow> json option"
  json_dumps :: "json \<Rightarrow> string"
  QTextEdit :: 'w
  setStyleSheet :: "string \<Rightarrow> 'w \<Rightarrow> 'w"
  setHtml :: "string \<Rightarrow> 'w \<Rightarrow> 'w"
  setPlainText :: "string \<Rightarrow> 'w \<Rightarrow> 'w"
  toHtml :: "'w \<Rightarrow> string"
  toPlainText :: "'w \<Rightarrow> string"
  odf_write :: "string \<Rightarrow> 'w \<Rightarrow> filesystem \<Rightarrow> filesystem"
  pdf_print :: "string \<Rightarrow> 'w \<Rightarrow> filesystem \<Rightarrow> filesystem"

text \<open>Line 15: \<^verbatim>\<open>SESSION_FILE = os.path.join(tempfile.gettempdir(), "hacker_editor_session.json")\<close>.\<close>

definition SESSION_FILE :: "'w toolkit \<Rightarrow> string" where
  "SESSION_FILE L = path_join (tempdir L) ''hacker_editor_session.json''"

subsection \<open>EditorTab\<close>

record 'w editor_tab =
  text_edit :: 'w
  path :: json

definition hacker_style :: string where
  "hacker_style =
     ''background-color: black; color: #00FF00; font-family: Courier; font-size: 14pt;''"

text \<open>
  \<^verbatim>\<open>EditorTab.__init__(path=None, html=None)\<close>, lines 37 to 53. The stored HTML wins over
  the path; the file of the path is read only when there is no HTML and the path is
  truthy. \<^verbatim>\<open>setHtml\<close> takes a str and raises \<^verbatim>\<open>TypeError\<close> on anything else. The
  syntax highlighter attached at line 45 changes how the widget paints, not its content.
\<close>

definition EditorTab :: "'w toolkit \<Rightarrow> filesystem \<Rightarrow> json \<Rightarrow> json \<Rightarrow> error + 'w editor_tab" where
  "EditorTab L d p html =
     (let w = setStyleSheet L hacker_style (QTextEdit L) in
      if html \<noteq> JNull then
        (case html of
           JStr h \<Rightarrow> Inr \<lparr>text_edit = setHtml L h w, path = p\<rparr>
         | _ \<Rightarrow> Inl TypeError)
      else if truthy p then
        (case open_read d p of
           Inl e \<Rightarrow> Inl e
         | Inr txt \<Rightarrow> Inr \<lparr>text_edit = setPlainText L txt w, path = p\<rparr>)
      else Inr \<lparr>text_edit = w, path = p\<rparr>)"

text \<open>
  \<^verbatim>\<open>EditorTab.filename\<close>, lines 55 and 56; \<^verbatim>\<open>os.path.basename\<close> raises \<^verbatim>\<open>TypeError\<close>
  on a value that is not a str.
\<close>

definition filename :: "'w editor_tab \<Rightarrow> error + string" where
  "filename t =
     (if truthy (path t) then
        (case path t of JStr p \<Rightarrow> Inr (basename p) | _ \<Rightarrow> Inl TypeError)
      else Inr ''Untitled'')"

subsection \<open>HackerEditor\<close>

text \<open>
  The state of the application: the widgets of \<^verbatim>\<open>self.tabs\<close> in tab order, their
  titles, the index of the current tab, and the file system.
\<close>

record 'w editor =
  tabs :: "'w editor_tab list"
  labels :: "string list"
  current :: "nat option"
  fs :: filesystem

text \<open>
  \<^verbatim>\<open>QTabWidget.addTab\<close> appends the tab; the first tab of an empty widget becomes the
  current one. \<^verbatim>\<open>QTabWidget.setCurrentWidget\<close> of the tab just added selects the last
  index.
\<close>

definition addTab :: "'w editor_tab \<Rightarrow> string \<Rightarrow> 'w editor \<Rightarrow> 'w editor" where
  "addTab t l s =
     s\<lparr>tabs := tabs s @ [t], labels := labels s @ [l],
       current := (if tabs s = [] then Some 0 else current s)\<rparr>"

definition setCurrentLast :: "'w editor \<Rightarrow> 'w editor" where
  "setCurrentLast s = s\<lparr>current := Some (length (tabs s) - 1)\<rparr>"

text \<open>\<^verbatim>\<open>new_tab\<close>, lines 161 to 164.\<close>

definition new_tab :: "'w toolkit \<Rightarrow> 'w editor \<Rightarrow> error option \<times> 'w editor" where
  "new_tab L s =
     (case EditorTab L (fs s) JNull JNull of
        Inl e \<Rightarrow> (Some e, s)
      | Inr t \<Rightarrow>
          (case filename t of
             Inl e \<Rightarrow> (Some e, s)
           | Inr l \<Rightarrow> (None, setCurrentLast (addTab t l s))))"

text \<open>Line 171: \<^verbatim>\<open>EditorTab(item.get("path"), html=item.get("html"))\<close>.\<close>

definition item_tab :: "'w toolkit \<Rightarrow> filesystem \<Rightarrow> json \<Rightarrow> error + 'w editor_tab" where
  "item_tab L d item =
     (case py_get item ''path'' of
        Inl e \<Rightarrow> Inl e
      | Inr p \<Rightarrow>
          (case py_get item ''html'' of
             Inl e \<Rightarrow> Inl e
           | Inr h \<Rightarrow> EditorTab L d p h))"

text \<open>
  The loop of \<^verbatim>\<open>load_session\<close>, lines 170 to 172: one tab per item, in order; an
  exception leaves the tabs added so far.
\<close>

fun load_items :: "'w toolkit \<Rightarrow> json list \<Rightarrow> 'w editor \<Rightarrow> error option \<times> 'w editor" where
  "load_items L [] s = (None, s)"
| "load_items L (item # rest) s =
     (case item_tab L (fs s) item of
        Inl e \<Rightarrow> (Some e, s)
      | Inr t \<Rightarrow>
          (case filename t of
             Inl e \<Rightarrow> (Some e, s)
           | Inr l \<Rightarrow> load_items L rest (addTab t l s)))"

text \<open>
  The first statement of \<^verbatim>\<open>load_session\<close>, lines 167 to 172: read the record if it
  exists and restore its documents. This is the \<open>load()\<close> of the session store.
\<close>

definition load_stored :: "'w toolkit \<Rightarrow> 'w editor \<Rightarrow> error option \<times> 'w editor" where
  "load_stored L s =
     (if path_exists (fs s) (SESSION_FILE L) then
        (case open_read (fs s) (JStr (SESSION_FILE L)) of
           Inl e \<Rightarrow> (Some e, s)
         | Inr txt \<Rightarrow>
             (case json_loads L txt of
                None \<Rightarrow> (Some JSONDecodeError, s)
              | Some data \<Rightarrow>
                  (case py_iter data of
                     Inl e \<Rightarrow> (Some e, s)
                   | Inr items \<Rightarrow> load_items L items s)))
      else (None, s))"

text \<open>
  \<^verbatim>\<open>load_session\<close>, lines 166 to 174: the stored documents, then one new tab when
  there is none.
\<close>

definition load_session :: "'w toolkit \<Rightarrow> 'w editor \<Rightarrow> error option \<times> 'w editor" where
  "load_session L s =
     (case load_stored L s of
        (Some e, s') \<Rightarrow> (Some e, s')
      | (None, s') \<Rightarrow> if length (tabs s') = 0 then new_tab L s' else (None, s'))"

text \<open>
  \<^verbatim>\<open>auto_save_session\<close>, lines 176 to 185: one dict per tab index, then the whole list
  written over the record.
\<close>

definition session_entry :: "'w toolkit \<Rightarrow> 'w editor_tab \<Rightarrow> json" where
  "session_entry L t = JObj [(''path'', path t), (''html'', JStr (toHtml L (text_edit t)))]"

definition session_data :: "'w toolkit \<Rightarrow> 'w editor \<Rightarrow> json list" where
  "session_data L s = map (\<lambda>i. session_entry L (tabs s ! i)) [0..<length (tabs s)]"

definition auto_save_session :: "'w toolkit \<Rightarrow> 'w editor \<Rightarrow> error option \<times> 'w editor" where
  "auto_save_session L s =
     (case write_text (fs s) (SESSION_FILE L) (json_dumps L (JArr (session_data L s))) of
        (r, d) \<Rightarrow> (r, s\<lparr>fs := d\<rparr>))"

text \<open>
  \<^verbatim>\<open>HackerEditor.__init__\<close>, lines 60 to 76: an empty tab widget, then \<^verbatim>\<open>load_session\<close>.
  The timer, the exit hook and the toolbar do not touch the tabs when they are set up.
\<close>

definition startup :: "filesystem \<Rightarrow> 'w editor" where
  "startup d = \<lparr>tabs = [], labels = [], current = None, fs = d\<rparr>"

definition HackerEditor_init :: "'w toolkit \<Rightarrow> filesystem \<Rightarrow> error option \<times> 'w editor" where
  "HackerEditor_init L d = load_session L (startup d)"

subsection \<open>The handlers of the toolbar\<close>

text \<open>
  \<^verbatim>\<open>self.tabs.currentWidget()\<close> is \<^verbatim>\<open>None\<close> when no tab is current, and the attribute
  access of \<^verbatim>\<open>current\<close> (lines 158 and 159) then raises \<^verbatim>\<open>AttributeError\<close>.
\<close>

definition currentWidget :: "'w editor \<Rightarrow> nat option" where
  "currentWidget s =
     (case current s of
        None \<Rightarrow> None
      | Some i \<Rightarrow> if i < length (tabs s) then Some i else None)"

text \<open>
  What lines 193 to 195, 202 to 204 and 212 to 214 do after a file dialog returned the
  non-empty path \<open>p\<close>: the current tab takes the path, and its title the base name.
\<close>

definition set_path :: "nat \<Rightarrow> string \<Rightarrow> 'w editor \<Rightarrow> 'w editor" where
  "set_path i p s =
     s\<lparr>tabs := (tabs s)[i := (tabs s ! i)\<lparr>path := JStr p\<rparr>],
       labels := (labels s)[i := basename p]\<rparr>"

text \<open>
  \<^verbatim>\<open>open_txt_py\<close>, lines 188 to 195; \<open>p\<close> is the path the file dialog returned, empty
  when the user cancelled.
\<close>

definition open_txt_py :: "'w toolkit \<Rightarrow> string \<Rightarrow> 'w editor \<Rightarrow> error option \<times> 'w editor" where
  "open_txt_py L p s =
     (if p = [] then (None, s)
      else case open_read (fs s) (JStr p) of
        Inl e \<Rightarrow> (Some e, s)
      | Inr txt \<Rightarrow>
          (case currentWidget s of
             None \<Rightarrow> (Some AttributeError, s)
           | Some i \<Rightarrow>
               (None, set_path i p
                  (s\<lparr>tabs := (tabs s)[i := (tabs s ! i)
                         \<lparr>text_edit := setPlainText L txt (text_edit (tabs s ! i))\<rparr>]\<rparr>))))"

text \<open>
  \<^verbatim>\<open>save_txt\<close>, lines 197 to 204. The file is opened (and truncated) before
  \<^verbatim>\<open>self.current()\<close> is evaluated, so without a current tab the file is left empty.
\<close>

definition save_txt :: "'w toolkit \<Rightarrow> string \<Rightarrow> 'w editor \<Rightarrow> error option \<times> 'w editor" where
  "save_txt L p s =
     (if p = [] then (None, s)
      else case currentWidget s of
        None \<Rightarrow>
          (if CHR 0x00 \<in> set p then (Some ValueError, s)
           else case wfault (fs s) p of
             OpenFault e \<Rightarrow> (Some e, s)
           | _ \<Rightarrow> (Some AttributeError, s\<lparr>fs := (fs s)\<lparr>files := (files (fs s))(p \<mapsto> Inr [])\<rparr>\<rparr>))
      | Some i \<Rightarrow>
          (case write_text (fs s) p (toPlainText L (text_edit (tabs s ! i))) of
             (Some e, d) \<Rightarrow> (Some e, s\<lparr>fs := d\<rparr>)
           | (None, d) \<Rightarrow> (None, set_path i p (s\<lparr>fs := d\<rparr>))))"

text \<open>\<^verbatim>\<open>save_odt\<close>, lines 207 to 214.\<close>

definition save_odt :: "'w toolkit \<Rightarrow> string \<Rightarrow> 'w editor \<Rightarrow> error option \<times> 'w editor" where
  "save_odt L p s =
     (if p = [] then (None, s)
      else case currentWidget s of
        None \<Rightarrow> (Some AttributeError, s)
      | Some i \<Rightarrow>
          (None, set_path i p (s\<lparr>fs := odf_write L p (text_edit (tabs s ! i)) (fs s)\<rparr>)))"

text \<open>\<^verbatim>\<open>export_pdf\<close>, lines 217 to 224.\<close>

definition export_pdf :: "'w toolkit \<Rightarrow> string \<Rightarrow> 'w editor \<Rightarrow> error option \<times> 'w editor" where
  "export_pdf L p s =
     (if p = [] then (None, s)
      else case currentWidget s of
        None \<Rightarrow> (Some AttributeError, s)
      | Some i \<Rightarrow> (None, s\<lparr>fs := pdf_print L p (text_edit (tabs s ! i)) (fs s)\<rparr>))"

text \<open>
  \<^verbatim>\<open>undo\<close>, \<^verbatim>\<open>redo\<close>, \<^verbatim>\<open>find_replace\<close>, \<^verbatim>\<open>merge\<close> (with \<^verbatim>\<open>toggle_bold\<close> and
  \<^verbatim>\<open>change_size\<close>) and \<^verbatim>\<open>align\<close>, lines 227 to 270, and the user's typing: each is
  an action \<open>f\<close> of the toolkit on the widget of \<^verbatim>\<open>self.current()\<close>.
\<close>

definition widget_action :: "('w \<Rightarrow> 'w) \<Rightarrow> 'w editor \<Rightarrow> error option \<times> 'w editor" where
  "widget_action f s =
     (case currentWidget s of
        None \<Rightarrow> (Some AttributeError, s)
      | Some i \<Rightarrow>
          (None, s\<lparr>tabs := (tabs s)[i := (tabs s ! i)\<lparr>text_edit := f (text_edit (tabs s ! i))\<rparr>]\<rparr>))"

text \<open>\<^verbatim>\<open>change_theme\<close>, lines 262 to 267: a style sheet for the widget of every tab.\<close>

definition change_theme :: "'w toolkit \<Rightarrow> int \<Rightarrow> 'w editor \<Rightarrow> error option \<times> 'w editor" where
  "change_theme L idx s =
     (let ss = (if idx = 0
                then ''background-color:black;color:#00FF00; font-family:Courier; font-size:14pt;''
                else ''background:white;color:black; font-family:Courier; font-size:14pt;'')
      in (None, s\<lparr>tabs := map (\<lambda>t. t\<lparr>text_edit := setStyleSheet L ss (text_edit t)\<rparr>) (tabs s)\<rparr>))"

text \<open>The user clicks the tab of index \<open>i\<close> (the toolkit's doing).\<close>

definition select_tab :: "nat \<Rightarrow> 'w editor \<Rightarrow> error option \<times> 'w editor" where
  "select_tab i s = (None, if i < length (tabs s) then s\<lparr>current := Some i\<rparr> else s)"

text \<open>
  What can happen once the window is up: a handler of the toolbar, the timer or the exit
  hook calling \<^verbatim>\<open>auto_save_session\<close>, the user acting on the widgets.
\<close>

datatype 'w action =
    NewTab
  | AutoSave
  | OpenTxtPy string
  | SaveTxt string
  | SaveOdt string
  | ExportPdf string
  | Widget "'w \<Rightarrow> 'w"
  | ChangeTheme int
  | SelectTab nat

fun perform :: "'w toolkit \<Rightarrow> 'w action \<Rightarrow> 'w editor \<Rightarrow> error option \<times> 'w editor" where
  "perform L NewTab s = new_tab L s"
| "perform L AutoSave s = auto_save_session L s"
| "perform L (OpenTxtPy p) s = open_txt_py L p s"
| "perform L (SaveTxt p) s = save_txt L p s"
| "perform L (SaveOdt p) s = save_odt L p s"
| "perform L (ExportPdf p) s = export_pdf L p s"
| "perform L (Widget f) s = widget_action f s"
| "perform L (ChangeTheme idx) s = change_theme L idx s"
| "perform L (SelectTab i) s = select_tab i s"

text \<open>A run of the application: actions one after the other, up to the first exception.\<close>

fun run :: "'w toolkit \<Rightarrow> 'w action list \<Rightarrow> 'w editor \<Rightarrow> error option \<times> 'w editor" where
  "run L [] s = (None, s)"
| "run L (a # as) s =
     (case perform L a s of
        (Some e, s') \<Rightarrow> (Some e, s')
      | (None, s') \<Rightarrow> run L as s')"

subsection \<open>Documents as the session store sees them\<close>

text \<open>
  The fields of a stored entry are optional strings: \<^verbatim>\<open>None\<close> or a str. So is the path
  of a document of the specification.
\<close>

fun optional_str :: "json \<Rightarrow> bool" where
  "optional_str JNull = True"
| "optional_str (JStr p) = True"
| "optional_str _ = False"

text \<open>
  What \<^verbatim>\<open>EditorTab\<close> builds from the entry that \<^verbatim>\<open>auto_save_session\<close> stores for the
  tab \<open>t\<close>: the path of \<open>t\<close>, and a new widget that was given, by \<^verbatim>\<open>setHtml\<close>, the
  very string \<^verbatim>\<open>toHtml\<close> returned for \<open>t\<close>.
\<close>

definition restored :: "'w toolkit \<Rightarrow> 'w editor_tab \<Rightarrow> 'w editor_tab" where
  "restored L t =
     \<lparr>text_edit = setHtml L (toHtml L (text_edit t)) (setStyleSheet L hacker_style (QTextEdit L)),
      path = path t\<rparr>"


text \<open>A JSON object, and a value that is a list of objects.\<close>

fun is_object :: "json \<Rightarrow> bool" where
  "is_object (JObj kvs) = True"
| "is_object _ = False"

fun list_of_objects :: "json \<Rightarrow> bool" where
  "list_of_objects (JArr items) = list_all is_object items"
| "list_of_objects _ = False"

text \<open>
  A value that can be opened and read on the file system \<open>d\<close>, and a value that is a str.
\<close>

definition readable :: "filesystem \<Rightarrow> json \<Rightarrow> bool" where
  "readable d p = (case open_read d p of Inl e \<Rightarrow> False | Inr body \<Rightarrow> True)"

fun is_str :: "json \<Rightarrow> bool" where
  "is_str (JStr x) = True"
| "is_str _ = False"

text \<open>
  The items that \<^verbatim>\<open>load_session\<close> turns into a tab on the file system \<open>d\<close>: an object
  (an absent key counts as \<^verbatim>\<open>None\<close>) whose \<^verbatim>\<open>html\<close> is a str, or is \<^verbatim>\<open>None\<close> with a path
  that is false in Python's truth test or can be opened and read; and whose path is false
  in that test or a str, so that the tab has a title.
\<close>

definition loadable_entry :: "filesystem \<Rightarrow> json \<Rightarrow> bool" where
  "loadable_entry d item =
     (case item of
        JObj kvs \<Rightarrow>
          (let p = (case map_of kvs ''path'' of None \<Rightarrow> JNull | Some v \<Rightarrow> v);
               h = (case map_of kvs ''html'' of None \<Rightarrow> JNull | Some v \<Rightarrow> v)
           in (is_str h \<or> (h = JNull \<and> (\<not> truthy p \<or> readable d p)))
              \<and> (\<not> truthy p \<or> is_str p))
      | _ \<Rightarrow> False)"


subsection \<open>A session, a toolkit and file systems to evaluate the code on\<close>

text \<open>
  The session of the concrete scenario: a bold \<open>hello\<close> saved as \<^verbatim>\<open>/tmp/x.py\<close> and an
  untitled \<open>plain\<close>, with the text \<^verbatim>\<open>json.dump\<close> writes for it.
\<close>

definition sample_data :: json where
  "sample_data =
     JArr [JObj [(''path'', JStr ''/tmp/x.py''), (''html'', JStr ''<b>hello</b>'')],
           JObj [(''path'', JNull), (''html'', JStr ''plain'')]]"

definition sample_text :: string where
  \<open>sample_text =
     ''[{"path": "/tmp/x.py", "html": "<b>hello</b>"}, {"path": null, "html": "plain"}]''\<close>

text \<open>A record whose only object has a path and no \<^verbatim>\<open>html\<close> key.\<close>

definition pathonly_data :: json where
  "pathonly_data = JArr [JObj [(''path'', JStr ''/tmp/gone.txt'')]]"

definition pathonly_text :: string where
  \<open>pathonly_text = ''[{"path": "/tmp/gone.txt"}]''\<close>

text \<open>
  A record of four objects: one with both keys, one with a path only, one without keys
  and one with \<^verbatim>\<open>html\<close> only.
\<close>

definition mixed_data :: json where
  "mixed_data =
     JArr [JObj [(''path'', JStr ''/tmp/x.py''), (''html'', JStr ''<b>hello</b>'')],
           JObj [(''path'', JStr ''/tmp/notes.txt'')],
           JObj [],
           JObj [(''html'', JStr ''<i>x</i>'')]]"

definition mixed_text :: string where
  \<open>mixed_text =
     ''[{"path": "/tmp/x.py", "html": "<b>hello</b>"}, {"path": "/tmp/notes.txt"}, {}, {"html": "<i>x</i>"}]''\<close>

text \<open>A record that is an object and not a list.\<close>

definition object_text :: string where
  \<open>object_text = ''{"a": 1}''\<close>

text \<open>The session of one untitled document without content.\<close>

definition blank_data :: json where
  "blank_data = JArr [JObj [(''path'', JNull), (''html'', JStr [])]]"

definition blank_text :: string where
  \<open>blank_text = ''[{"path": null, "html": ""}]''\<close>

text \<open>
  The JSON library on these texts, on \<^verbatim>\<open>null\<close>, \<^verbatim>\<open>[1]\<close> and \<^verbatim>\<open>{}\<close>, and on one that is not
  JSON:
  \<open>demo_loads\<close> and \<open>demo_dumps\<close> agree with \<^verbatim>\<open>json.loads\<close> and \<^verbatim>\<open>json.dumps\<close> on these
  values and texts, and \<open>demo_loads\<close> refuses every other text, \<^verbatim>\<open>{not json\<close> among them.
\<close>

definition demo_loads :: "string \<Rightarrow> json option" where
  "demo_loads txt =
     (if txt = ''[]'' then Some (JArr [])
      else if txt = sample_text then Some sample_data
      else if txt = pathonly_text then Some pathonly_data
      else if txt = mixed_text then Some mixed_data
      else if txt = blank_text then Some blank_data
      else if txt = ''null'' then Some JNull
      else if txt = ''[1]'' then Some (JArr [JInt 1])
      else if txt = ''{}'' then Some (JObj [])
      else if txt = object_text then Some (JObj [(''a'', JInt 1)])
      else None)"

definition demo_dumps :: "json \<Rightarrow> string" where
  "demo_dumps v =
     (if v = JArr [] then ''[]''
      else if v = sample_data then sample_text
      else if v = pathonly_data then pathonly_text
      else if v = mixed_data then mixed_text
      else if v = blank_data then blank_text
      else if v = JArr [JInt 1] then ''[1]''
      else if v = JObj [] then ''{}''
      else if v = JObj [(''a'', JInt 1)] then object_text
      else ''null'')"

text \<open>
  A toolkit whose widget is the markup it was given, for evaluating the code: \<^verbatim>\<open>toHtml\<close>
  returns what \<^verbatim>\<open>setHtml\<close> stored.
\<close>

definition demo :: "string toolkit" where
  "demo =
     \<lparr>tempdir = ''/tmp'', json_loads = demo_loads, json_dumps = demo_dumps,
      QTextEdit = [], setStyleSheet = (\<lambda>ss w. w), setHtml = (\<lambda>h w. h),
      setPlainText = (\<lambda>t w. t), toHtml = (\<lambda>w. w), toPlainText = (\<lambda>w. w),
      odf_write = (\<lambda>p w d. d), pdf_print = (\<lambda>p w d. d)\<rparr>"

text \<open>File systems: an empty one, and one that refuses to open any file for writing.\<close>

definition empty_fs :: filesystem where
  "empty_fs = \<lparr>files = Map.empty, fds = (\<lambda>n. Inl OSError), wfault = (\<lambda>p. NoFault)\<rparr>"

definition readonly_fs :: filesystem where
  "readonly_fs = empty_fs\<lparr>wfault := (\<lambda>p. OpenFault PermissionError)\<rparr>"

definition fs_with :: "string \<Rightarrow> filesystem" where
  "fs_with txt = empty_fs\<lparr>files := [''/tmp/hacker_editor_session.json'' \<mapsto> Inr txt]\<rparr>"

text \<open>
  A file system where the record is a directory; one with the record \<^verbatim>\<open>[]\<close> on a disk
  that fails every write after three characters; and one with the record of four
  objects, the notes that the second object names, and the text \<open>code\<close> in the file
  that the first object names.
\<close>

definition dir_fs :: filesystem where
  "dir_fs = empty_fs\<lparr>files := [''/tmp/hacker_editor_session.json'' \<mapsto> Inl IsADirectoryError]\<rparr>"

definition full_disk_fs :: filesystem where
  "full_disk_fs = (fs_with ''[]'')\<lparr>wfault := (\<lambda>p. WriteFault 3 OSError)\<rparr>"

definition mixed_fs :: "string \<Rightarrow> filesystem" where
  "mixed_fs code =
     empty_fs\<lparr>files := [''/tmp/hacker_editor_session.json'' \<mapsto> Inr mixed_text,
                         ''/tmp/notes.txt'' \<mapsto> Inr ''milk'',
                         ''/tmp/x.py'' \<mapsto> Inr code]\<rparr>"

text \<open>The two documents of the scenario as tabs of the demo toolkit.\<close>

definition sample_tabs :: "string editor_tab list" where
  "sample_tabs =
     [\<lparr>text_edit = ''<b>hello</b>'', path = JStr ''/tmp/x.py''\<rparr>,
      \<lparr>text_edit = ''plain'', path = JNull\<rparr>]"

definition sample_editor :: "filesystem \<Rightarrow> string editor" where
  "sample_editor d = \<lparr>tabs = sample_tabs, labels = [''x.py'', ''Untitled''], current = Some 0, fs = d\<rparr>"

section \<open>Properties\<close>

lemma new_tab_eq:
  "new_tab L s =
     (None, setCurrentLast (addTab \<lparr>text_edit = setStyleSheet L hacker_style (QTextEdit L),
                                     path = JNull\<rparr> ''Untitled'' s))"
  by (simp add: new_tab_def EditorTab_def filename_def)

subsection \<open>Loading reads and never writes\<close>

lemma addTab_fs: "fs (addTab t l s) = fs s"
  by (simp add: addTab_def)

lemma load_items_fs: "fs (snd (load_items L items s)) = fs s"
proof (induction items arbitrary: s)
  case Nil
  show ?case by simp
next
  case (Cons item rest)
  show ?case
    by (simp add: Cons.IH addTab_fs split: sum.split)
qed

lemma load_stored_fs: "fs (snd (load_stored L s)) = fs s"
  by (simp add: load_stored_def load_items_fs split: sum.split option.split)

lemma new_tab_fs: "fs (snd (new_tab L s)) = fs s"
  by (simp add: new_tab_eq setCurrentLast_def addTab_def)

text \<open>
  C8. Loading has no side effect on the durable record: whatever the file system holds
  (no record, a valid one, anything else) and whether loading returns or raises, the
  file system after \<open>load_stored\<close>, and after the whole of \<open>load_session\<close>, is the file
  system before it.
\<close>

theorem load_session_reads_only:
  "fs (snd (load_stored L s)) = fs s \<and> fs (snd (load_session L s)) = fs s"
proof
  show "fs (snd (load_stored L s)) = fs s" by (rule load_stored_fs)
next
  obtain r s' where eq: "load_stored L s = (r, s')" by (cases "load_stored L s")
  with load_stored_fs [of L s] have s': "fs s' = fs s" by simp
  show "fs (snd (load_session L s)) = fs s"
  proof (cases r)
    case None
    with eq s' new_tab_fs [of L s'] show ?thesis
      by (simp add: load_session_def)
  next
    case (Some e)
    with eq s' show ?thesis by (simp add: load_session_def)
  qed
qed

subsection \<open>No record\<close>

text \<open>
  C4. When nothing exists at the location of the record, loading the stored documents
  returns without an exception and leaves the tab widget as it was at start-up, with no
  document; \<open>load_session\<close> then opens exactly one tab, whose widget is a new styled
  \<open>QTextEdit\<close> that was given no content and whose path is \<^verbatim>\<open>None\<close>.
\<close>

theorem missing_record_default:
  assumes "files d (SESSION_FILE L) = None"
  shows "load_stored L (startup d) = (None, startup d)
       \<and> tabs (snd (load_stored L (startup d))) = []
       \<and> HackerEditor_init L d =
           (None, \<lparr>tabs = [\<lparr>text_edit = setStyleSheet L hacker_style (QTextEdit L), path = JNull\<rparr>],
                    labels = [''Untitled''], current = Some 0, fs = d\<rparr>)"
proof -
  from assms have a: "load_stored L (startup d) = (None, startup d)"
    by (simp add: load_stored_def path_exists_def startup_def)
  have b: "tabs (snd (load_stored L (startup d))) = []"
    by (simp add: a) (simp add: startup_def)
  have "HackerEditor_init L d =
           (None, \<lparr>tabs = [\<lparr>text_edit = setStyleSheet L hacker_style (QTextEdit L), path = JNull\<rparr>],
                    labels = [''Untitled''], current = Some 0, fs = d\<rparr>)"
    by (simp add: HackerEditor_init_def load_session_def a new_tab_eq)
       (simp add: startup_def setCurrentLast_def addTab_def)
  with a b show ?thesis by simp
qed

lemma demo_fields:
  "tempdir demo = ''/tmp''" "json_loads demo = demo_loads" "json_dumps demo = demo_dumps"
  "QTextEdit demo = []" "setStyleSheet demo ss w = w" "setHtml demo h w = h"
  "setPlainText demo t w = t" "toHtml demo w = w" "toPlainText demo w = w"
  by (simp_all add: demo_def)

lemma demo_session_file: "SESSION_FILE demo = ''/tmp/hacker_editor_session.json''"
  by (simp add: SESSION_FILE_def path_join_def demo_fields)

theorem missing_record_default_witness:
  "files empty_fs (SESSION_FILE demo) = None
   \<and> load_stored demo (startup empty_fs) = (None, startup empty_fs)
   \<and> HackerEditor_init demo empty_fs =
        (None, \<lparr>tabs = [\<lparr>text_edit = [], path = JNull\<rparr>],
                 labels = [''Untitled''], current = Some 0, fs = empty_fs\<rparr>)"
proof -
  have h: "files empty_fs (SESSION_FILE demo) = None" by (simp add: empty_fs_def)
  from missing_record_default [OF h] h show ?thesis by (simp add: demo_fields)
qed

lemma startup_fs: "fs (startup d) = d"
  by (simp add: startup_def)

lemma fs_with_session:
  "path_exists (fs_with txt) (SESSION_FILE demo)"
  "open_read (fs_with txt) (JStr (SESSION_FILE demo)) = Inr txt"
  by (simp_all add: demo_session_file path_exists_def fs_with_def empty_fs_def)

subsection \<open>Saving\<close>

lemma session_data_map: "session_data L s = map (session_entry L) (tabs s)"
  by (rule nth_equalityI) (simp_all add: session_data_def)

lemma auto_save_session_files:
  assumes "auto_save_session L s = (None, s')"
  shows "files (fs s') =
    (files (fs s))(SESSION_FILE L \<mapsto> Inr (json_dumps L (JArr (map (session_entry L) (tabs s)))))"
proof (cases "CHR 0x00 \<in> set (SESSION_FILE L)")
  case True
  with assms show ?thesis by (simp add: auto_save_session_def write_text_def)
next
  case False
  show ?thesis
  proof (cases "wfault (fs s) (SESSION_FILE L)")
    case NoFault
    with False assms show ?thesis
      by (auto simp add: auto_save_session_def write_text_def session_data_map)
  next
    case (OpenFault e)
    with False assms show ?thesis by (simp add: auto_save_session_def write_text_def)
  next
    case (WriteFault n e)
    with False assms show ?thesis by (simp add: auto_save_session_def write_text_def)
  qed
qed

text \<open>
  C3, as the code has it. When the operating system refuses to open the record for
  writing, or fails while the text is written, \<open>auto_save_session\<close> does not contain the
  failure: it raises the exception to its caller. The tabs, their titles and the current
  index are what they were before the call.
\<close>

theorem save_failure_propagates:
  assumes "wfault (fs s) (SESSION_FILE L) = OpenFault e \<or> wfault (fs s) (SESSION_FILE L) = WriteFault n e"
      and "CHR 0x00 \<notin> set (SESSION_FILE L)"
  shows "fst (auto_save_session L s) = Some e
       \<and> tabs (snd (auto_save_session L s)) = tabs s
       \<and> labels (snd (auto_save_session L s)) = labels s
       \<and> current (snd (auto_save_session L s)) = current s"
  using assms by (auto simp add: auto_save_session_def write_text_def)

theorem save_failure_propagates_witness:
  "(wfault (fs (sample_editor readonly_fs)) (SESSION_FILE demo) = OpenFault PermissionError
      \<or> wfault (fs (sample_editor readonly_fs)) (SESSION_FILE demo) = WriteFault 0 PermissionError)
   \<and> CHR 0x00 \<notin> set (SESSION_FILE demo)
   \<and> fst (auto_save_session demo (sample_editor readonly_fs)) = Some PermissionError
   \<and> tabs (snd (auto_save_session demo (sample_editor readonly_fs))) = sample_tabs"
proof -
  have a: "wfault (fs (sample_editor readonly_fs)) (SESSION_FILE demo) = OpenFault PermissionError
      \<or> wfault (fs (sample_editor readonly_fs)) (SESSION_FILE demo) = WriteFault 0 PermissionError"
    by (simp add: sample_editor_def readonly_fs_def empty_fs_def)
  have b: "CHR 0x00 \<notin> set (SESSION_FILE demo)"
    by (simp add: demo_session_file)
  have c: "tabs (sample_editor readonly_fs) = sample_tabs" by (simp add: sample_editor_def)
  from save_failure_propagates [OF a b] a b c show ?thesis by simp
qed

text \<open>
  The claim as stated fails: on a file system that refuses to open files for writing,
  saving the two documents of the scenario raises \<^verbatim>\<open>PermissionError\<close> out of
  \<open>auto_save_session\<close>.
\<close>

theorem save_failure_counterexample:
  "wfault readonly_fs (SESSION_FILE demo) = OpenFault PermissionError
   \<and> fst (auto_save_session demo (sample_editor readonly_fs)) = Some PermissionError"
  by (simp add: auto_save_session_def write_text_def readonly_fs_def empty_fs_def
      sample_editor_def demo_session_file)

lemma sample_editor_fields:
  "tabs (sample_editor d) = sample_tabs" "fs (sample_editor d) = d"
  "(sample_editor d)\<lparr>fs := d'\<rparr> = sample_editor d'"
  by (simp_all add: sample_editor_def)

lemma demo_dumps_sample:
  "json_dumps demo (JArr (map (session_entry demo) sample_tabs)) = sample_text"
  by (simp add: demo_fields demo_dumps_def session_entry_def sample_tabs_def sample_data_def)

lemma fs_with_overwrite:
  "empty_fs\<lparr>files := (files empty_fs)(''/tmp/hacker_editor_session.json'' \<mapsto> Inr txt)\<rparr> = fs_with txt"
  "(fs_with old)\<lparr>files := (files (fs_with old))(''/tmp/hacker_editor_session.json'' \<mapsto> Inr txt)\<rparr> = fs_with txt"
  "wfault (fs_with old) p = NoFault" "wfault empty_fs p = NoFault"
  by (simp_all add: fs_with_def empty_fs_def)

lemma sample_save:
  "auto_save_session demo (sample_editor empty_fs) = (None, sample_editor (fs_with sample_text))"
  "auto_save_session demo (sample_editor (fs_with old)) = (None, sample_editor (fs_with sample_text))"
  by (simp_all add: auto_save_session_def write_text_def demo_session_file session_data_map
      sample_editor_fields demo_dumps_sample fs_with_overwrite)

subsection \<open>Save, then load\<close>

lemma item_tab_session_entry:
  "item_tab L d (session_entry L t) = Inr (restored L t)"
  by (simp add: item_tab_def session_entry_def EditorTab_def restored_def)

lemma filename_restored:
  assumes "optional_str (path t)"
  shows "\<exists>l. filename (restored L t) = Inr l"
  using assms by (cases "path t") (simp_all add: filename_def restored_def)

lemma load_items_restored:
  assumes "list_all (\<lambda>t. optional_str (path t)) ts"
  shows "fst (load_items L (map (session_entry L) ts) s) = None
       \<and> tabs (snd (load_items L (map (session_entry L) ts) s)) = tabs s @ map (restored L) ts"
  using assms
proof (induction ts arbitrary: s)
  case Nil
  show ?case by simp
next
  case (Cons t ts)
  from Cons.prems have p: "optional_str (path t)" and rest: "list_all (\<lambda>t. optional_str (path t)) ts"
    by simp_all
  from filename_restored [OF p] obtain l where l: "filename (restored L t) = Inr l" ..
  have step: "load_items L (map (session_entry L) (t # ts)) s =
      load_items L (map (session_entry L) ts) (addTab (restored L t) l s)"
    by (simp add: item_tab_session_entry l)
  have tabs': "tabs (addTab (restored L t) l s) = tabs s @ [restored L t]"
    by (simp add: addTab_def)
  from Cons.IH [OF rest, of "addTab (restored L t) l s"] show ?case
    by (simp only: step tabs') simp
qed

lemma auto_save_session_no_nul:
  assumes "auto_save_session L s = (None, s')"
  shows "CHR 0x00 \<notin> set (SESSION_FILE L)"
proof
  assume "CHR 0x00 \<in> set (SESSION_FILE L)"
  with assms show False by (simp add: auto_save_session_def write_text_def)
qed

lemma load_after_save:
  assumes paths: "list_all (\<lambda>t. optional_str (path t)) (tabs s)"
      and saved: "auto_save_session L s = (None, s')"
      and codec: "json_loads L (json_dumps L (JArr (session_data L s))) = Some (JArr (session_data L s))"
  shows "fst (load_stored L (startup (fs s'))) = None
       \<and> tabs (snd (load_stored L (startup (fs s')))) = map (restored L) (tabs s)"
proof -
  let ?txt = "json_dumps L (JArr (map (session_entry L) (tabs s)))"
  have nonul: "CHR 0x00 \<notin> set (SESSION_FILE L)" by (rule auto_save_session_no_nul [OF saved])
  have rec: "files (fs s') (SESSION_FILE L) = Some (Inr ?txt)"
    by (simp add: auto_save_session_files [OF saved])
  from nonul rec have ex: "path_exists (fs (startup (fs s'))) (SESSION_FILE L)"
    by (simp add: path_exists_def startup_fs)
  from nonul rec have rd: "open_read (fs (startup (fs s'))) (JStr (SESSION_FILE L)) = Inr ?txt"
    by (simp add: startup_fs)
  from codec have parse: "json_loads L ?txt = Some (JArr (map (session_entry L) (tabs s)))"
    by (simp add: session_data_map)
  have "load_stored L (startup (fs s')) =
      load_items L (map (session_entry L) (tabs s)) (startup (fs s'))"
    unfolding load_stored_def by (simp only: ex rd parse if_True sum.case option.case py_iter.simps)
  with load_items_restored [OF paths, of L "startup (fs s')"] show ?thesis
    by (simp add: startup_def)
qed

text \<open>
  C1. Save, then load. Let the session have any number of tabs (none included), each
  with a path that is \<^verbatim>\<open>None\<close> or a str and any content; let the save return, and let
  the JSON library read back the list it wrote. Then loading the stored documents into the
  empty tab widget of a start-up raises nothing and gives as many tabs, in the same order;
  tab \<open>i\<close> has the path of the saved tab \<open>i\<close>, and its widget is a new one that was
  given, unchanged, the markup string that \<^verbatim>\<open>toHtml\<close> returned for the saved tab \<open>i\<close>.
  With at least one tab, the whole of \<open>load_session\<close> does the same.
\<close>

theorem save_load_roundtrip:
  assumes paths: "list_all (\<lambda>t. optional_str (path t)) (tabs s)"
      and saved: "auto_save_session L s = (None, s')"
      and codec: "json_loads L (json_dumps L (JArr (session_data L s))) = Some (JArr (session_data L s))"
  shows "fst (load_stored L (startup (fs s'))) = None
       \<and> tabs (snd (load_stored L (startup (fs s')))) = map (restored L) (tabs s)
       \<and> length (tabs (snd (load_stored L (startup (fs s'))))) = length (tabs s)
       \<and> (\<forall>i < length (tabs s).
             path (tabs (snd (load_stored L (startup (fs s')))) ! i) = path (tabs s ! i)
           \<and> text_edit (tabs (snd (load_stored L (startup (fs s')))) ! i) =
               setHtml L (toHtml L (text_edit (tabs s ! i)))
                 (setStyleSheet L hacker_style (QTextEdit L)))
       \<and> (tabs s \<noteq> [] \<longrightarrow> load_session L (startup (fs s')) = load_stored L (startup (fs s')))"
proof -
  let ?r = "load_stored L (startup (fs s'))"
  from load_after_save [OF paths saved codec]
  have ok: "fst ?r = None" and ts: "tabs (snd ?r) = map (restored L) (tabs s)" by simp_all
  have len: "length (tabs (snd ?r)) = length (tabs s)" by (simp add: ts)
  have idx: "\<forall>i < length (tabs s).
             path (tabs (snd ?r) ! i) = path (tabs s ! i)
           \<and> text_edit (tabs (snd ?r) ! i) =
               setHtml L (toHtml L (text_edit (tabs s ! i)))
                 (setStyleSheet L hacker_style (QTextEdit L))"
    by (simp add: ts restored_def)
  have whole: "tabs s \<noteq> [] \<longrightarrow> load_session L (startup (fs s')) = ?r"
  proof
    assume ne: "tabs s \<noteq> []"
    obtain e r where r: "?r = (e, r)" by (cases ?r)
    with ok ts ne have "e = None" and "tabs r \<noteq> []" by simp_all
    with r show "load_session L (startup (fs s')) = ?r"
      by (simp add: load_session_def)
  qed
  from ok ts len idx whole show ?thesis by blast
qed

lemma demo_loads_sample: "json_loads demo sample_text = Some sample_data"
  by (simp add: demo_fields demo_loads_def sample_text_def)

lemma sample_data_entries: "JArr (map (session_entry demo) sample_tabs) = sample_data"
  by (simp add: session_entry_def sample_tabs_def sample_data_def demo_fields)

lemma demo_dumps_data: "json_dumps demo sample_data = sample_text"
  by (simp add: demo_fields demo_dumps_def sample_data_def)

lemma restored_sample: "map (restored demo) sample_tabs = sample_tabs"
  by (simp add: restored_def sample_tabs_def demo_fields)

theorem save_load_roundtrip_witness:
  "list_all (\<lambda>t. optional_str (path t)) (tabs (sample_editor empty_fs))
   \<and> auto_save_session demo (sample_editor empty_fs) = (None, sample_editor (fs_with sample_text))
   \<and> json_loads demo (json_dumps demo (JArr (session_data demo (sample_editor empty_fs)))) =
        Some (JArr (session_data demo (sample_editor empty_fs)))
   \<and> fst (load_stored demo (startup (fs_with sample_text))) = None
   \<and> tabs (snd (load_stored demo (startup (fs_with sample_text)))) = sample_tabs
   \<and> load_session demo (startup (fs_with sample_text)) = load_stored demo (startup (fs_with sample_text))"
proof -
  have p: "list_all (\<lambda>t. optional_str (path t)) (tabs (sample_editor empty_fs))"
    by (simp add: sample_editor_fields sample_tabs_def)
  have h: "auto_save_session demo (sample_editor empty_fs) = (None, sample_editor (fs_with sample_text))"
    by (rule sample_save)
  have c: "json_loads demo (json_dumps demo (JArr (session_data demo (sample_editor empty_fs)))) =
        Some (JArr (session_data demo (sample_editor empty_fs)))"
    by (simp add: session_data_map sample_editor_fields sample_data_entries demo_dumps_data
        demo_loads_sample)
  have ne: "tabs (sample_editor empty_fs) \<noteq> []"
    by (simp add: sample_editor_fields sample_tabs_def)
  from save_load_roundtrip [OF p h c] p h c ne show ?thesis
    by (simp add: sample_editor_fields restored_sample)
qed

lemma auto_save_session_again:
  assumes "auto_save_session L s = (None, s1)"
  shows "tabs s1 = tabs s \<and> auto_save_session L s1 = (None, s1)"
proof -
  have nonul: "CHR 0x00 \<notin> set (SESSION_FILE L)" by (rule auto_save_session_no_nul [OF assms])
  show ?thesis
  proof (cases "wfault (fs s) (SESSION_FILE L)")
    case NoFault
    with nonul assms show ?thesis
      by (auto simp add: auto_save_session_def write_text_def session_data_def)
  next
    case (OpenFault e)
    with nonul assms show ?thesis by (simp add: auto_save_session_def write_text_def)
  next
    case (WriteFault n e)
    with nonul assms show ?thesis by (simp add: auto_save_session_def write_text_def)
  qed
qed

text \<open>
  C7. Save twice, with no change in between. Under the conditions of the round trip, the
  first save leaves the tabs as they were, loading after it gives the saved session, the
  second save changes nothing at all (record included), and loading after it gives the
  saved session again.
\<close>

theorem save_twice_then_load:
  assumes paths: "list_all (\<lambda>t. optional_str (path t)) (tabs s)"
      and first: "auto_save_session L s = (None, s1)"
      and second: "auto_save_session L s1 = (None, s2)"
      and codec: "json_loads L (json_dumps L (JArr (session_data L s))) = Some (JArr (session_data L s))"
  shows "tabs s1 = tabs s
       \<and> fst (load_stored L (startup (fs s1))) = None
       \<and> tabs (snd (load_stored L (startup (fs s1)))) = map (restored L) (tabs s)
       \<and> s2 = s1
       \<and> fst (load_stored L (startup (fs s2))) = None
       \<and> tabs (snd (load_stored L (startup (fs s2)))) = map (restored L) (tabs s)"
proof -
  from auto_save_session_again [OF first] second have same: "tabs s1 = tabs s" and eq: "s2 = s1"
    by simp_all
  from load_after_save [OF paths first codec] same eq show ?thesis by simp
qed

theorem save_twice_then_load_witness:
  "list_all (\<lambda>t. optional_str (path t)) (tabs (sample_editor empty_fs))
   \<and> auto_save_session demo (sample_editor empty_fs) = (None, sample_editor (fs_with sample_text))
   \<and> auto_save_session demo (sample_editor (fs_with sample_text)) = (None, sample_editor (fs_with sample_text))
   \<and> json_loads demo (json_dumps demo (JArr (session_data demo (sample_editor empty_fs)))) =
        Some (JArr (session_data demo (sample_editor empty_fs)))
   \<and> tabs (snd (load_stored demo (startup (fs (sample_editor (fs_with sample_text)))))) = sample_tabs"
proof -
  have p: "list_all (\<lambda>t. optional_str (path t)) (tabs (sample_editor empty_fs))"
    by (simp add: sample_editor_fields sample_tabs_def)
  have h1: "auto_save_session demo (sample_editor empty_fs) = (None, sample_editor (fs_with sample_text))"
    by (rule sample_save)
  have h2: "auto_save_session demo (sample_editor (fs_with sample_text)) = (None, sample_editor (fs_with sample_text))"
    by (rule sample_save)
  have c: "json_loads demo (json_dumps demo (JArr (session_data demo (sample_editor empty_fs)))) =
        Some (JArr (session_data demo (sample_editor empty_fs)))"
    by (simp add: session_data_map sample_editor_fields sample_data_entries demo_dumps_data
        demo_loads_sample)
  from save_twice_then_load [OF p h1 h2 c] p h1 h2 c show ?thesis
    by (simp add: sample_editor_fields restored_sample)
qed

subsection \<open>The session is never empty\<close>

lemma new_tab_grows: "length (tabs (snd (new_tab L s))) = Suc (length (tabs s))"
  by (simp add: new_tab_eq setCurrentLast_def addTab_def)

lemma auto_save_session_tabs: "tabs (snd (auto_save_session L s)) = tabs s"
  by (simp add: auto_save_session_def split: prod.split)

lemma set_path_length: "length (tabs (set_path i p s)) = length (tabs s)"
  by (simp add: set_path_def)

lemma open_txt_py_length: "length (tabs (snd (open_txt_py L p s))) = length (tabs s)"
  by (simp add: open_txt_py_def set_path_length split: sum.split option.split)

lemma save_txt_length: "length (tabs (snd (save_txt L p s))) = length (tabs s)"
  by (simp add: save_txt_def set_path_length split: prod.split option.split write_fault.split)

lemma save_odt_length: "length (tabs (snd (save_odt L p s))) = length (tabs s)"
  by (simp add: save_odt_def set_path_length split: option.split)

lemma export_pdf_length: "length (tabs (snd (export_pdf L p s))) = length (tabs s)"
  by (simp add: export_pdf_def split: option.split)

lemma widget_action_length: "length (tabs (snd (widget_action f s))) = length (tabs s)"
  by (simp add: widget_action_def split: option.split)

lemma change_theme_length: "length (tabs (snd (change_theme L idx s))) = length (tabs s)"
  by (simp add: change_theme_def Let_def)

lemma select_tab_length: "length (tabs (snd (select_tab i s))) = length (tabs s)"
  by (simp add: select_tab_def)

lemma perform_keeps_tabs: "length (tabs s) \<le> length (tabs (snd (perform L a s)))"
proof (cases a)
  case NewTab
  then show ?thesis by (simp add: new_tab_grows)
next
  case AutoSave
  then show ?thesis by (simp add: auto_save_session_tabs)
next
  case (OpenTxtPy p)
  then show ?thesis by (simp add: open_txt_py_length)
next
  case (SaveTxt p)
  then show ?thesis by (simp add: save_txt_length)
next
  case (SaveOdt p)
  then show ?thesis by (simp add: save_odt_length)
next
  case (ExportPdf p)
  then show ?thesis by (simp add: export_pdf_length)
next
  case (Widget f)
  then show ?thesis by (simp add: widget_action_length)
next
  case (ChangeTheme idx)
  then show ?thesis by (simp add: change_theme_length)
next
  case (SelectTab i)
  then show ?thesis by (simp add: select_tab_length)
qed

lemma run_keeps_tabs: "length (tabs s) \<le> length (tabs (snd (run L as s)))"
proof (induction as arbitrary: s)
  case Nil
  show ?case by simp
next
  case (Cons a as)
  obtain e s' where p: "perform L a s = (e, s')" by (cases "perform L a s")
  with perform_keeps_tabs [of s L a] have le: "length (tabs s) \<le> length (tabs s')" by simp
  show ?case
  proof (cases e)
    case None
    with p Cons.IH [of s'] le show ?thesis by simp
  next
    case (Some err)
    with p le show ?thesis by simp
  qed
qed

lemma load_session_nonempty:
  assumes "load_session L s = (None, s')"
  shows "tabs s' \<noteq> []"
proof -
  obtain e r where r: "load_stored L s = (e, r)" by (cases "load_stored L s")
  show ?thesis
  proof (cases e)
    case (Some err)
    with r assms show ?thesis by (simp add: load_session_def)
  next
    case None
    show ?thesis
    proof (cases "tabs r = []")
      case True
      with None r assms have "s' = snd (new_tab L r)" by (simp add: load_session_def new_tab_eq)
      with new_tab_grows [of L r] show ?thesis by auto
    next
      case False
      with None r assms show ?thesis by (simp add: load_session_def)
    qed
  qed
qed

text \<open>
  C5. When the constructor of the main window returns, the session has at least one
  document; and after any run of the application from there (new tabs, saves of the
  session by the timer or the exit hook, files opened and saved, exports, edits, theme
  changes, tab selections, in any order, up to the first exception if there is one) it
  still has at least one: no handler removes a tab.
\<close>

theorem session_never_empty:
  assumes "HackerEditor_init L d = (None, s0)"
  shows "tabs s0 \<noteq> [] \<and> 1 \<le> length (tabs s0)
       \<and> (\<forall>as. tabs (snd (run L as s0)) \<noteq> [] \<and> 1 \<le> length (tabs (snd (run L as s0))))"
proof -
  from assms have ne: "tabs s0 \<noteq> []"
    by (simp add: HackerEditor_init_def load_session_nonempty)
  then have one: "1 \<le> length (tabs s0)" by (cases "tabs s0") simp_all
  have "\<forall>as. tabs (snd (run L as s0)) \<noteq> [] \<and> 1 \<le> length (tabs (snd (run L as s0)))"
  proof
    fix as
    from run_keeps_tabs [of s0 L as] one have "1 \<le> length (tabs (snd (run L as s0)))" by simp
    then show "tabs (snd (run L as s0)) \<noteq> [] \<and> 1 \<le> length (tabs (snd (run L as s0)))" by auto
  qed
  with ne one show ?thesis by simp
qed

lemma demo_init_empty:
  "HackerEditor_init demo empty_fs =
     (None, \<lparr>tabs = [\<lparr>text_edit = [], path = JNull\<rparr>], labels = [''Untitled''],
              current = Some 0, fs = empty_fs\<rparr>)"
  by (simp add: HackerEditor_init_def load_session_def load_stored_def path_exists_def
      startup_def empty_fs_def new_tab_eq setCurrentLast_def addTab_def demo_fields)

lemma demo_save_blank:
  "auto_save_session demo
     \<lparr>tabs = [\<lparr>text_edit = [], path = JNull\<rparr>], labels = [''Untitled''],
      current = Some 0, fs = empty_fs\<rparr> =
   (None, \<lparr>tabs = [\<lparr>text_edit = [], path = JNull\<rparr>], labels = [''Untitled''],
           current = Some 0, fs = fs_with blank_text\<rparr>)"
proof -
  have d: "demo_dumps (JArr [JObj [(''path'', JNull), (''html'', JStr [])]]) = blank_text"
    by (simp add: demo_dumps_def blank_data_def sample_data_def pathonly_data_def mixed_data_def)
  show ?thesis
    by (simp add: auto_save_session_def write_text_def demo_session_file session_data_map
        session_entry_def demo_fields d fs_with_overwrite)
qed

lemma demo_new_tab_second:
  "new_tab demo
     \<lparr>tabs = [\<lparr>text_edit = [], path = JNull\<rparr>], labels = [''Untitled''],
      current = Some 0, fs = fs_with blank_text\<rparr> =
   (None, \<lparr>tabs = [\<lparr>text_edit = [], path = JNull\<rparr>, \<lparr>text_edit = [], path = JNull\<rparr>],
           labels = [''Untitled'', ''Untitled''], current = Some 1, fs = fs_with blank_text\<rparr>)"
  by (simp add: new_tab_eq setCurrentLast_def addTab_def demo_fields)

lemma demo_open_missing:
  "open_txt_py demo ''/tmp/none.txt''
     \<lparr>tabs = [\<lparr>text_edit = [], path = JNull\<rparr>, \<lparr>text_edit = [], path = JNull\<rparr>],
      labels = [''Untitled'', ''Untitled''], current = Some 1, fs = fs_with blank_text\<rparr> =
   (Some FileNotFoundError,
    \<lparr>tabs = [\<lparr>text_edit = [], path = JNull\<rparr>, \<lparr>text_edit = [], path = JNull\<rparr>],
     labels = [''Untitled'', ''Untitled''], current = Some 1, fs = fs_with blank_text\<rparr>)"
  by (simp add: open_txt_py_def fs_with_def empty_fs_def)

lemma demo_run_sample:
  "run demo [AutoSave, NewTab, OpenTxtPy ''/tmp/none.txt'']
     \<lparr>tabs = [\<lparr>text_edit = [], path = JNull\<rparr>], labels = [''Untitled''],
      current = Some 0, fs = empty_fs\<rparr> =
   (Some FileNotFoundError,
    \<lparr>tabs = [\<lparr>text_edit = [], path = JNull\<rparr>, \<lparr>text_edit = [], path = JNull\<rparr>],
     labels = [''Untitled'', ''Untitled''], current = Some 1, fs = fs_with blank_text\<rparr>)"
  by (simp only: run.simps perform.simps demo_save_blank demo_new_tab_second demo_open_missing
      prod.case option.case)

theorem session_never_empty_witness:
  "HackerEditor_init demo empty_fs =
     (None, \<lparr>tabs = [\<lparr>text_edit = [], path = JNull\<rparr>], labels = [''Untitled''],
              current = Some 0, fs = empty_fs\<rparr>)
   \<and> fst (run demo [AutoSave, NewTab, OpenTxtPy ''/tmp/none.txt'']
        \<lparr>tabs = [\<lparr>text_edit = [], path = JNull\<rparr>], labels = [''Untitled''],
         current = Some 0, fs = empty_fs\<rparr>) = Some FileNotFoundError
   \<and> length (tabs (snd (run demo [AutoSave, NewTab, OpenTxtPy ''/tmp/none.txt'']
        \<lparr>tabs = [\<lparr>text_edit = [], path = JNull\<rparr>], labels = [''Untitled''],
         current = Some 0, fs = empty_fs\<rparr>))) = 2
   \<and> tabs (snd (run demo [AutoSave, NewTab, OpenTxtPy ''/tmp/none.txt'']
        \<lparr>tabs = [\<lparr>text_edit = [], path = JNull\<rparr>], labels = [''Untitled''],
         current = Some 0, fs = empty_fs\<rparr>)) \<noteq> []"
proof -
  note th = session_never_empty [OF demo_init_empty]
  from th have "tabs (snd (run demo [AutoSave, NewTab, OpenTxtPy ''/tmp/none.txt'']
        \<lparr>tabs = [\<lparr>text_edit = [], path = JNull\<rparr>], labels = [''Untitled''],
         current = Some 0, fs = empty_fs\<rparr>)) \<noteq> []"
    by blast
  then show ?thesis by (simp only: demo_init_empty demo_run_sample) simp
qed

subsection \<open>A record that is not a session\<close>

lemma load_items_not_object:
  assumes "\<not> list_all is_object items"
  shows "fst (load_items L items s) \<noteq> None"
  using assms
proof (induction items arbitrary: s)
  case Nil
  then show ?case by simp
next
  case (Cons item rest)
  show ?case
  proof (cases "item_tab L (fs s) item")
    case (Inl e)
    then show ?thesis by simp
  next
    case (Inr t)
    then have obj: "is_object item"
      by (cases item) (simp_all add: item_tab_def)
    with Cons.prems have rest: "\<not> list_all is_object rest" by simp
    show ?thesis
    proof (cases "filename t")
      case (Inl e)
      with Inr show ?thesis by simp
    next
      case (Inr l)
      with \<open>item_tab L (fs s) item = Inr t\<close> Cons.IH [OF rest, of "addTab t l s"]
      show ?thesis by simp
    qed
  qed
qed

lemma load_session_raises:
  assumes "load_stored L s = (Some e, r)"
  shows "load_session L s = (Some e, r)"
  using assms by (simp add: load_session_def)

lemma load_session_fst: "(fst (load_session L s) = None) = (fst (load_stored L s) = None)"
proof -
  obtain e r where r: "load_stored L s = (e, r)" by (cases "load_stored L s")
  show ?thesis
    by (cases e) (simp_all add: r load_session_def new_tab_eq)
qed

text \<open>
  C2, as the code has it. Let the record exist. \<open>load_session\<close> does not fall back to a
  session without documents. It raises the error of the operating system when the record
  cannot be opened and read, \<^verbatim>\<open>JSONDecodeError\<close> when the parser refuses the text,
  \<^verbatim>\<open>TypeError\<close> when the text parses to a value that cannot be iterated (null, a
  boolean, a number), and \<^verbatim>\<open>AttributeError\<close> when it parses to a string or an object
  that is not empty, whose first item is a str; in these four cases no tab is added and
  the state is as it was before the call. When the text parses to a list with an item
  that is not an object, loading raises too, possibly after the tabs of earlier items
  were added. The two values left that are not a list of objects, the empty object and
  the empty string, have no item: loading them restores no document and raises nothing.
\<close>

theorem malformed_record_outcome:
  assumes ex: "path_exists (fs s) (SESSION_FILE L)"
  shows "(\<forall>e. open_read (fs s) (JStr (SESSION_FILE L)) = Inl e \<longrightarrow>
            load_session L s = (Some e, s))
       \<and> (\<forall>txt. open_read (fs s) (JStr (SESSION_FILE L)) = Inr txt \<and> json_loads L txt = None \<longrightarrow>
            load_session L s = (Some JSONDecodeError, s))
       \<and> (\<forall>txt v. open_read (fs s) (JStr (SESSION_FILE L)) = Inr txt \<and> json_loads L txt = Some v
              \<and> py_iter v = Inl TypeError \<longrightarrow>
            load_session L s = (Some TypeError, s))
       \<and> (\<forall>txt v. open_read (fs s) (JStr (SESSION_FILE L)) = Inr txt \<and> json_loads L txt = Some v
              \<and> ((\<exists>c cs. v = JStr (c # cs)) \<or> (\<exists>kv kvs. v = JObj (kv # kvs))) \<longrightarrow>
            load_session L s = (Some AttributeError, s))
       \<and> (\<forall>txt v. open_read (fs s) (JStr (SESSION_FILE L)) = Inr txt \<and> json_loads L txt = Some v
              \<and> (v = JStr [] \<or> v = JObj []) \<longrightarrow>
            load_stored L s = (None, s))
       \<and> (\<forall>txt items. open_read (fs s) (JStr (SESSION_FILE L)) = Inr txt
              \<and> json_loads L txt = Some (JArr items) \<and> \<not> list_all is_object items \<longrightarrow>
            fst (load_stored L s) \<noteq> None \<and> fst (load_session L s) \<noteq> None)
       \<and> (\<forall>v. \<not> list_of_objects v \<longrightarrow>
            py_iter v = Inl TypeError
          \<or> (\<exists>c cs. v = JStr (c # cs)) \<or> (\<exists>kv kvs. v = JObj (kv # kvs))
          \<or> v = JStr [] \<or> v = JObj []
          \<or> (\<exists>items. v = JArr items \<and> \<not> list_all is_object items))"
proof (intro conjI allI impI)
  fix e assume "open_read (fs s) (JStr (SESSION_FILE L)) = Inl e"
  with ex have "load_stored L s = (Some e, s)" by (simp add: load_stored_def)
  then show "load_session L s = (Some e, s)" by (rule load_session_raises)
next
  fix t assume "open_read (fs s) (JStr (SESSION_FILE L)) = Inr t \<and> json_loads L t = None"
  with ex have "load_stored L s = (Some JSONDecodeError, s)" by (simp add: load_stored_def)
  then show "load_session L s = (Some JSONDecodeError, s)" by (rule load_session_raises)
next
  fix t v
  assume "open_read (fs s) (JStr (SESSION_FILE L)) = Inr t \<and> json_loads L t = Some v
              \<and> py_iter v = Inl TypeError"
  with ex have "load_stored L s = (Some TypeError, s)" by (simp add: load_stored_def)
  then show "load_session L s = (Some TypeError, s)" by (rule load_session_raises)
next
  fix t v
  assume a: "open_read (fs s) (JStr (SESSION_FILE L)) = Inr t \<and> json_loads L t = Some v
              \<and> ((\<exists>c cs. v = JStr (c # cs)) \<or> (\<exists>kv kvs. v = JObj (kv # kvs)))"
  then have "(\<exists>c cs. v = JStr (c # cs)) \<or> (\<exists>kv kvs. v = JObj (kv # kvs))" by simp
  then have "\<exists>x rest. py_iter v = Inr (JStr x # rest)" by auto
  then obtain x rest where it: "py_iter v = Inr (JStr x # rest)" by blast
  have "load_items L (JStr x # rest) s = (Some AttributeError, s)"
    by (simp add: item_tab_def)
  with ex a it have "load_stored L s = (Some AttributeError, s)" by (simp add: load_stored_def)
  then show "load_session L s = (Some AttributeError, s)" by (rule load_session_raises)
next
  fix t v
  assume a: "open_read (fs s) (JStr (SESSION_FILE L)) = Inr t \<and> json_loads L t = Some v
              \<and> (v = JStr [] \<or> v = JObj [])"
  then have "py_iter v = Inr []" by auto
  with ex a show "load_stored L s = (None, s)" by (simp add: load_stored_def)
next
  fix t items
  assume a: "open_read (fs s) (JStr (SESSION_FILE L)) = Inr t
              \<and> json_loads L t = Some (JArr items) \<and> \<not> list_all is_object items"
  with ex have "load_stored L s = load_items L items s" by (simp add: load_stored_def)
  with a load_items_not_object [of items L s]
  show stored: "fst (load_stored L s) \<noteq> None" by simp
  then show "fst (load_session L s) \<noteq> None" by (simp add: load_session_fst)
next
  fix v assume "\<not> list_of_objects v"
  then show "py_iter v = Inl TypeError
          \<or> (\<exists>c cs. v = JStr (c # cs)) \<or> (\<exists>kv kvs. v = JObj (kv # kvs))
          \<or> v = JStr [] \<or> v = JObj []
          \<or> (\<exists>items. v = JArr items \<and> \<not> list_all is_object items)"
  proof (cases v)
    case (JStr x)
    then show ?thesis by (cases x) simp_all
  next
    case (JObj kvs)
    then show ?thesis by (cases kvs) simp_all
  qed simp_all
qed

lemma dir_fs_session:
  "path_exists dir_fs (SESSION_FILE demo)"
  "open_read dir_fs (JStr (SESSION_FILE demo)) = Inl IsADirectoryError"
  by (simp_all add: demo_session_file path_exists_def dir_fs_def empty_fs_def)

lemma demo_loads_malformed:
  "json_loads demo ''{not json'' = None"
  "json_loads demo ''null'' = Some JNull"
  "json_loads demo object_text = Some (JObj [(''a'', JInt 1)])"
  "json_loads demo ''{}'' = Some (JObj [])"
  "json_loads demo ''[1]'' = Some (JArr [JInt 1])"
  by (simp_all add: demo_fields demo_loads_def sample_text_def pathonly_text_def mixed_text_def
      blank_text_def object_text_def)

theorem malformed_record_outcome_witness:
  "path_exists dir_fs (SESSION_FILE demo)
   \<and> open_read dir_fs (JStr (SESSION_FILE demo)) = Inl IsADirectoryError
   \<and> load_session demo (startup dir_fs) = (Some IsADirectoryError, startup dir_fs)
   \<and> json_loads demo ''{not json'' = None
   \<and> load_session demo (startup (fs_with ''{not json'')) =
        (Some JSONDecodeError, startup (fs_with ''{not json''))
   \<and> json_loads demo ''null'' = Some JNull \<and> py_iter JNull = Inl TypeError
   \<and> load_session demo (startup (fs_with ''null'')) = (Some TypeError, startup (fs_with ''null''))
   \<and> json_loads demo object_text = Some (JObj [(''a'', JInt 1)])
   \<and> load_session demo (startup (fs_with object_text)) =
        (Some AttributeError, startup (fs_with object_text))
   \<and> json_loads demo ''{}'' = Some (JObj [])
   \<and> load_stored demo (startup (fs_with ''{}'')) = (None, startup (fs_with ''{}''))
   \<and> json_loads demo ''[1]'' = Some (JArr [JInt 1])
   \<and> \<not> list_of_objects (JArr [JInt 1])
   \<and> \<not> list_all is_object [JInt 1]
   \<and> fst (load_session demo (startup (fs_with ''[1]''))) \<noteq> None"
proof -
  have a: "path_exists (fs (startup (fs_with t) :: string editor)) (SESSION_FILE demo)" for t
    by (simp only: startup_fs fs_with_session)
  have b: "open_read (fs (startup (fs_with t) :: string editor)) (JStr (SESSION_FILE demo)) = Inr t" for t
    by (simp only: startup_fs fs_with_session)
  have a0: "path_exists (fs (startup dir_fs :: string editor)) (SESSION_FILE demo)"
    by (simp only: startup_fs dir_fs_session)
  have b0: "open_read (fs (startup dir_fs :: string editor)) (JStr (SESSION_FILE demo)) =
      Inl IsADirectoryError"
    by (simp only: startup_fs dir_fs_session)
  note t1 = malformed_record_outcome [OF a0]
  have 1: "load_session demo (startup dir_fs) = (Some IsADirectoryError, startup dir_fs)"
    by (rule t1 [THEN conjunct1, rule_format]) (rule b0)
  note t2 = malformed_record_outcome [OF a [of "''{not json''"]]
  have 2: "load_session demo (startup (fs_with ''{not json'')) =
        (Some JSONDecodeError, startup (fs_with ''{not json''))"
    by (rule t2 [THEN conjunct2, THEN conjunct1, rule_format], rule conjI, rule b)
       (rule demo_loads_malformed)
  have it: "py_iter JNull = Inl TypeError" by simp
  note t3 = malformed_record_outcome [OF a [of "''null''"]]
  have 3: "load_session demo (startup (fs_with ''null'')) = (Some TypeError, startup (fs_with ''null''))"
    by (rule t3 [THEN conjunct2, THEN conjunct2, THEN conjunct1, rule_format], intro conjI, rule b,
        rule demo_loads_malformed, rule it)
  note t4 = malformed_record_outcome [OF a [of object_text]]
  have 4: "load_session demo (startup (fs_with object_text)) =
        (Some AttributeError, startup (fs_with object_text))"
    by (rule t4 [THEN conjunct2, THEN conjunct2, THEN conjunct2, THEN conjunct1, rule_format],
        intro conjI, rule b, rule demo_loads_malformed) simp
  note t5 = malformed_record_outcome [OF a [of "''{}''"]]
  have 5: "load_stored demo (startup (fs_with ''{}'')) = (None, startup (fs_with ''{}''))"
    by (rule t5 [THEN conjunct2, THEN conjunct2, THEN conjunct2, THEN conjunct2, THEN conjunct1,
          rule_format], intro conjI, rule b, rule demo_loads_malformed) simp
  note t6 = malformed_record_outcome [OF a [of "''[1]''"]]
  have 6: "fst (load_session demo (startup (fs_with ''[1]''))) \<noteq> None"
    by (rule t6 [THEN conjunct2, THEN conjunct2, THEN conjunct2, THEN conjunct2, THEN conjunct2,
          THEN conjunct1, rule_format, THEN conjunct2], intro conjI, rule b,
        rule demo_loads_malformed) simp
  have no: "\<not> list_of_objects (JArr [JInt 1])" by simp
  from t6 [THEN conjunct2, THEN conjunct2, THEN conjunct2, THEN conjunct2, THEN conjunct2,
      THEN conjunct2, rule_format, OF no]
  have 7: "\<not> list_all is_object [JInt 1]" by simp
  from dir_fs_session demo_loads_malformed it 1 2 3 4 5 6 no 7 show ?thesis by simp
qed

text \<open>
  The claim as stated fails: with the text \<^verbatim>\<open>{not json\<close> in the record, which the parser
  refuses, start-up ends in \<^verbatim>\<open>JSONDecodeError\<close> instead of a session without documents;
  with the text \<^verbatim>\<open>null\<close>, which parses, it ends in \<^verbatim>\<open>TypeError\<close>.
\<close>

theorem corrupt_record_counterexample:
  "demo_loads ''{not json'' = None
   \<and> fst (HackerEditor_init demo (fs_with ''{not json'')) = Some JSONDecodeError
   \<and> demo_loads ''null'' = Some JNull
   \<and> fst (HackerEditor_init demo (fs_with ''null'')) = Some TypeError"
proof -
  have c: "demo_loads ''{not json'' = None" "demo_loads ''null'' = Some JNull"
    by (simp_all add: demo_loads_def sample_text_def pathonly_text_def mixed_text_def
        blank_text_def object_text_def)
  have "load_stored demo (startup (fs_with ''{not json'')) =
      (Some JSONDecodeError, startup (fs_with ''{not json''))"
    unfolding load_stored_def
    by (simp only: startup_fs fs_with_session if_True sum.case demo_fields c option.case)
  moreover have "load_stored demo (startup (fs_with ''null'')) =
      (Some TypeError, startup (fs_with ''null''))"
    unfolding load_stored_def
    by (simp only: startup_fs fs_with_session if_True sum.case demo_fields c option.case
        py_iter.simps)
  ultimately show ?thesis using c
    by (simp add: HackerEditor_init_def load_session_def)
qed

subsection \<open>What a save leaves in the record\<close>

lemma auto_save_session_cases:
  assumes "CHR 0x00 \<notin> set (SESSION_FILE L)"
  shows "wfault (fs s) (SESSION_FILE L) = NoFault \<Longrightarrow>
           auto_save_session L s =
             (None, s\<lparr>fs := (fs s)\<lparr>files := (files (fs s))(SESSION_FILE L \<mapsto>
                Inr (json_dumps L (JArr (map (session_entry L) (tabs s)))))\<rparr>\<rparr>)"
    and "wfault (fs s) (SESSION_FILE L) = OpenFault e \<Longrightarrow>
           auto_save_session L s = (Some e, s\<lparr>fs := fs s\<rparr>)"
    and "wfault (fs s) (SESSION_FILE L) = WriteFault n e \<Longrightarrow>
           auto_save_session L s =
             (Some e, s\<lparr>fs := (fs s)\<lparr>files := (files (fs s))(SESSION_FILE L \<mapsto>
                Inr (take n (json_dumps L (JArr (map (session_entry L) (tabs s))))))\<rparr>\<rparr>)"
  using assms by (simp_all add: auto_save_session_def write_text_def session_data_map)

lemma auto_save_session_returns:
  "(fst (auto_save_session L s) = None) =
     (CHR 0x00 \<notin> set (SESSION_FILE L) \<and> wfault (fs s) (SESSION_FILE L) = NoFault)"
  by (cases "wfault (fs s) (SESSION_FILE L)")
     (simp_all add: auto_save_session_def write_text_def)

text \<open>
  C6, as the code has it. \<open>auto_save_session\<close> opens the record with mode \<^verbatim>\<open>"w"\<close> and
  writes into it in place. A save that returns has written the complete snapshot: the
  record then holds the text \<^verbatim>\<open>json.dump\<close> gives for the list with one entry per open
  tab, in tab order, no other file has changed, and what the record held before plays no
  part, since a save of the same tabs from any other state leaves the same record. A save
  returns exactly when the record can be opened and the write does not fail. When the
  record cannot be opened for writing, the save raises and the state, the record
  included, is as before. When the write fails after \<open>n\<close> characters, the save raises
  and the record holds the first \<open>n\<close> characters of the snapshot text, a partial record;
  no other file has changed.
\<close>

theorem save_snapshot_or_prefix:
  "(\<forall>s'. auto_save_session L s = (None, s') \<longrightarrow>
       files (fs s') (SESSION_FILE L) =
         Some (Inr (json_dumps L (JArr (map (session_entry L) (tabs s)))))
     \<and> (\<forall>p. p \<noteq> SESSION_FILE L \<longrightarrow> files (fs s') p = files (fs s) p)
     \<and> (\<forall>u u'. tabs u = tabs s \<longrightarrow> auto_save_session L u = (None, u') \<longrightarrow>
            files (fs u') (SESSION_FILE L) = files (fs s') (SESSION_FILE L)))
   \<and> (fst (auto_save_session L s) = None) =
       (CHR 0x00 \<notin> set (SESSION_FILE L) \<and> wfault (fs s) (SESSION_FILE L) = NoFault)
   \<and> (\<forall>e. CHR 0x00 \<notin> set (SESSION_FILE L) \<and> wfault (fs s) (SESSION_FILE L) = OpenFault e \<longrightarrow>
        auto_save_session L s = (Some e, s))
   \<and> (\<forall>n e. CHR 0x00 \<notin> set (SESSION_FILE L) \<and> wfault (fs s) (SESSION_FILE L) = WriteFault n e \<longrightarrow>
        fst (auto_save_session L s) = Some e
      \<and> files (fs (snd (auto_save_session L s))) (SESSION_FILE L) =
          Some (Inr (take n (json_dumps L (JArr (map (session_entry L) (tabs s))))))
      \<and> (\<forall>p. p \<noteq> SESSION_FILE L \<longrightarrow>
            files (fs (snd (auto_save_session L s))) p = files (fs s) p))"
proof (intro conjI allI impI)
  fix s' assume a: "auto_save_session L s = (None, s')"
  show "files (fs s') (SESSION_FILE L) =
           Some (Inr (json_dumps L (JArr (map (session_entry L) (tabs s)))))"
    by (simp add: auto_save_session_files [OF a])
  {
    fix p assume "p \<noteq> SESSION_FILE L"
    then show "files (fs s') p = files (fs s) p"
      by (simp add: auto_save_session_files [OF a])
  }
  {
    fix u u' :: "'a editor"
    assume t: "tabs u = tabs s" and u: "auto_save_session L u = (None, u')"
    show "files (fs u') (SESSION_FILE L) = files (fs s') (SESSION_FILE L)"
      by (simp add: auto_save_session_files [OF a] auto_save_session_files [OF u] t)
  }
next
  show "(fst (auto_save_session L s) = None) =
       (CHR 0x00 \<notin> set (SESSION_FILE L) \<and> wfault (fs s) (SESSION_FILE L) = NoFault)"
    by (rule auto_save_session_returns)
next
  fix e
  assume "CHR 0x00 \<notin> set (SESSION_FILE L) \<and> wfault (fs s) (SESSION_FILE L) = OpenFault e"
  then show "auto_save_session L s = (Some e, s)"
    by (simp add: auto_save_session_cases)
next
  fix n e
  assume a: "CHR 0x00 \<notin> set (SESSION_FILE L) \<and> wfault (fs s) (SESSION_FILE L) = WriteFault n e"
  then have r: "auto_save_session L s =
             (Some e, s\<lparr>fs := (fs s)\<lparr>files := (files (fs s))(SESSION_FILE L \<mapsto>
                Inr (take n (json_dumps L (JArr (map (session_entry L) (tabs s))))))\<rparr>\<rparr>)"
    by (simp add: auto_save_session_cases)
  show "fst (auto_save_session L s) = Some e" by (simp add: r)
  show "files (fs (snd (auto_save_session L s))) (SESSION_FILE L) =
          Some (Inr (take n (json_dumps L (JArr (map (session_entry L) (tabs s))))))"
    by (simp add: r)
  fix p assume "p \<noteq> SESSION_FILE L"
  then show "files (fs (snd (auto_save_session L s))) p = files (fs s) p"
    by (simp add: r)
qed

lemma sample_prefix: "take 3 sample_text = [CHR ''['', CHR ''{'', CHR 0x22]"
  by (simp add: sample_text_def)

lemma full_disk_fields:
  "wfault full_disk_fs p = WriteFault 3 OSError"
  "files full_disk_fs (SESSION_FILE demo) = Some (Inr ''[]'')"
  "files full_disk_fs ''/tmp/other.txt'' = None"
  by (simp_all add: full_disk_fs_def fs_with_def empty_fs_def demo_session_file)

lemma readonly_fields:
  "wfault readonly_fs p = OpenFault PermissionError"
  by (simp add: readonly_fs_def empty_fs_def)

theorem save_snapshot_or_prefix_witness:
  "auto_save_session demo (sample_editor empty_fs) = (None, sample_editor (fs_with sample_text))
   \<and> files (fs (sample_editor (fs_with sample_text))) (SESSION_FILE demo) = Some (Inr sample_text)
   \<and> tabs (sample_editor (fs_with ''[]'')) = tabs (sample_editor empty_fs)
   \<and> auto_save_session demo (sample_editor (fs_with ''[]'')) = (None, sample_editor (fs_with sample_text))
   \<and> CHR 0x00 \<notin> set (SESSION_FILE demo)
   \<and> wfault (fs (sample_editor readonly_fs)) (SESSION_FILE demo) = OpenFault PermissionError
   \<and> auto_save_session demo (sample_editor readonly_fs) = (Some PermissionError, sample_editor readonly_fs)
   \<and> wfault (fs (sample_editor full_disk_fs)) (SESSION_FILE demo) = WriteFault 3 OSError
   \<and> fst (auto_save_session demo (sample_editor full_disk_fs)) = Some OSError
   \<and> files (fs (snd (auto_save_session demo (sample_editor full_disk_fs)))) (SESSION_FILE demo) =
       Some (Inr [CHR ''['', CHR ''{'', CHR 0x22])
   \<and> ''/tmp/other.txt'' \<noteq> SESSION_FILE demo
   \<and> files (fs (snd (auto_save_session demo (sample_editor full_disk_fs)))) ''/tmp/other.txt'' = None"
proof -
  have h: "auto_save_session demo (sample_editor empty_fs) = (None, sample_editor (fs_with sample_text))"
    by (rule sample_save)
  have t: "tabs (sample_editor (fs_with ''[]'')) = tabs (sample_editor empty_fs)"
    by (simp add: sample_editor_fields)
  have u: "auto_save_session demo (sample_editor (fs_with ''[]'')) = (None, sample_editor (fs_with sample_text))"
    by (rule sample_save)
  have n: "CHR 0x00 \<notin> set (SESSION_FILE demo)" by (simp add: demo_session_file)
  have o: "wfault (fs (sample_editor readonly_fs)) (SESSION_FILE demo) = OpenFault PermissionError"
    by (simp add: sample_editor_fields readonly_fields)
  have w: "wfault (fs (sample_editor full_disk_fs)) (SESSION_FILE demo) = WriteFault 3 OSError"
    by (simp add: sample_editor_fields full_disk_fields)
  have d: "''/tmp/other.txt'' \<noteq> SESSION_FILE demo" by (simp add: demo_session_file)
  note t1 = save_snapshot_or_prefix [of demo "sample_editor empty_fs"]
  have 1: "files (fs (sample_editor (fs_with sample_text))) (SESSION_FILE demo) = Some (Inr sample_text)"
    using t1 [THEN conjunct1, rule_format, OF h, THEN conjunct1]
    by (simp add: demo_dumps_sample sample_editor_fields)
  have same: "files (fs (sample_editor (fs_with sample_text))) (SESSION_FILE demo) =
      files (fs (sample_editor (fs_with sample_text))) (SESSION_FILE demo)"
    by (rule t1 [THEN conjunct1, rule_format, OF h, THEN conjunct2, THEN conjunct2, rule_format,
          OF t u])
  note t2 = save_snapshot_or_prefix [of demo "sample_editor readonly_fs"]
  have 2: "auto_save_session demo (sample_editor readonly_fs) =
      (Some PermissionError, sample_editor readonly_fs)"
    by (rule t2 [THEN conjunct2, THEN conjunct2, THEN conjunct1, rule_format]) (simp only: n o simp_thms)
  note t3 = save_snapshot_or_prefix [of demo "sample_editor full_disk_fs"]
  note t3' = t3 [THEN conjunct2, THEN conjunct2, THEN conjunct2, rule_format, OF conjI, OF n w]
  have 3: "fst (auto_save_session demo (sample_editor full_disk_fs)) = Some OSError"
    by (rule t3' [THEN conjunct1])
  have 4: "files (fs (snd (auto_save_session demo (sample_editor full_disk_fs)))) (SESSION_FILE demo) =
       Some (Inr [CHR ''['', CHR ''{'', CHR 0x22])"
    using t3' [THEN conjunct2, THEN conjunct1]
    by (simp add: demo_dumps_sample sample_editor_fields sample_prefix)
  have 5: "files (fs (snd (auto_save_session demo (sample_editor full_disk_fs)))) ''/tmp/other.txt'' = None"
    using t3' [THEN conjunct2, THEN conjunct2, rule_format, OF d]
    by (simp add: sample_editor_fields full_disk_fields)
  from h 1 t u n o 2 w 3 4 d 5 show ?thesis by simp
qed

text \<open>
  The claim as stated fails: with the record \<^verbatim>\<open>[]\<close> on a disk that fails every write
  after three characters, saving the two documents of the scenario raises \<^verbatim>\<open>OSError\<close>
  and leaves three characters in the record, which is neither the previous record nor
  the snapshot of the two documents, and does not parse.
\<close>

theorem partial_record_counterexample:
  "files full_disk_fs (SESSION_FILE demo) = Some (Inr ''[]'')
   \<and> json_dumps demo (JArr (session_data demo (sample_editor full_disk_fs))) = sample_text
   \<and> fst (auto_save_session demo (sample_editor full_disk_fs)) = Some OSError
   \<and> files (fs (snd (auto_save_session demo (sample_editor full_disk_fs)))) (SESSION_FILE demo) =
       Some (Inr [CHR ''['', CHR ''{'', CHR 0x22])
   \<and> [CHR ''['', CHR ''{'', CHR 0x22] \<noteq> ''[]''
   \<and> [CHR ''['', CHR ''{'', CHR 0x22] \<noteq> sample_text
   \<and> json_loads demo [CHR ''['', CHR ''{'', CHR 0x22] = None"
proof -
  have "auto_save_session demo (sample_editor full_disk_fs) =
      (Some OSError, sample_editor (full_disk_fs\<lparr>files := (files full_disk_fs)(SESSION_FILE demo \<mapsto>
          Inr (take 3 sample_text))\<rparr>))"
    by (simp add: auto_save_session_def write_text_def demo_session_file session_data_map
        sample_editor_fields demo_dumps_sample full_disk_fields)
  then have r: "fst (auto_save_session demo (sample_editor full_disk_fs)) = Some OSError"
    "files (fs (snd (auto_save_session demo (sample_editor full_disk_fs)))) (SESSION_FILE demo) =
       Some (Inr [CHR ''['', CHR ''{'', CHR 0x22])"
    by (simp_all add: sample_editor_fields sample_prefix)
  have d: "json_dumps demo (JArr (session_data demo (sample_editor full_disk_fs))) = sample_text"
    by (simp add: session_data_map sample_editor_fields demo_dumps_sample)
  have n: "[CHR ''['', CHR ''{'', CHR 0x22] \<noteq> ''[]''"
    "[CHR ''['', CHR ''{'', CHR 0x22] \<noteq> sample_text"
    "json_loads demo [CHR ''['', CHR ''{'', CHR 0x22] = None"
    by (simp_all add: sample_text_def demo_fields demo_loads_def pathonly_text_def
        mixed_text_def blank_text_def object_text_def)
  from r d n full_disk_fields show ?thesis by simp
qed

subsection \<open>Objects without keys\<close>

lemma item_tab_object:
  "item_tab L d (JObj kvs) =
     EditorTab L d (case map_of kvs ''path'' of None \<Rightarrow> JNull | Some v \<Rightarrow> v)
       (case map_of kvs ''html'' of None \<Rightarrow> JNull | Some v \<Rightarrow> v)"
  by (simp add: item_tab_def)

lemma EditorTab_path:
  assumes "EditorTab L d p h = Inr t"
  shows "path t = p"
  using assms
  by (cases h; cases "open_read d p") (auto simp add: EditorTab_def Let_def split: if_splits)

lemma EditorTab_returns:
  "(\<exists>t. EditorTab L d p h = Inr t) =
     (is_str h \<or> (h = JNull \<and> (\<not> truthy p \<or> readable d p)))"
  by (cases h; cases "open_read d p") (auto simp add: EditorTab_def readable_def Let_def)

lemma filename_returns:
  "(\<exists>l. filename t = Inr l) = (\<not> truthy (path t) \<or> is_str (path t))"
  by (cases "path t") (simp_all add: filename_def)

lemma item_tab_loadable:
  "(\<exists>t l. item_tab L d item = Inr t \<and> filename t = Inr l) = loadable_entry d item"
proof (cases item)
  case (JObj kvs)
  let ?p = "case map_of kvs ''path'' of None \<Rightarrow> JNull | Some v \<Rightarrow> v"
  let ?h = "case map_of kvs ''html'' of None \<Rightarrow> JNull | Some v \<Rightarrow> v"
  have "(\<exists>t l. EditorTab L d ?p ?h = Inr t \<and> filename t = Inr l) =
      ((\<exists>t. EditorTab L d ?p ?h = Inr t) \<and> (\<not> truthy ?p \<or> is_str ?p))"
  proof
    assume "\<exists>t l. EditorTab L d ?p ?h = Inr t \<and> filename t = Inr l"
    then obtain t l where t: "EditorTab L d ?p ?h = Inr t" and l: "filename t = Inr l" by blast
    from l have "\<not> truthy (path t) \<or> is_str (path t)"
      using filename_returns [of t] by blast
    with t show "(\<exists>t. EditorTab L d ?p ?h = Inr t) \<and> (\<not> truthy ?p \<or> is_str ?p)"
      by (simp add: EditorTab_path [OF t])
  next
    assume a: "(\<exists>t. EditorTab L d ?p ?h = Inr t) \<and> (\<not> truthy ?p \<or> is_str ?p)"
    then obtain t where t: "EditorTab L d ?p ?h = Inr t" by blast
    with a have "\<not> truthy (path t) \<or> is_str (path t)"
      by (simp add: EditorTab_path [OF t])
    then obtain l where "filename t = Inr l"
      using filename_returns [of t] by blast
    with t show "\<exists>t l. EditorTab L d ?p ?h = Inr t \<and> filename t = Inr l" by blast
  qed
  then show ?thesis
    by (simp only: JObj item_tab_object EditorTab_returns loadable_entry_def json.case Let_def)
qed (simp_all add: item_tab_def loadable_entry_def)

lemma load_items_returns:
  "(fst (load_items L items s) = None) = list_all (loadable_entry (fs s)) items"
proof (induction items arbitrary: s)
  case Nil
  show ?case by simp
next
  case (Cons item rest)
  show ?case
  proof (cases "item_tab L (fs s) item")
    case (Inl e)
    then have "\<not> loadable_entry (fs s) item"
      using item_tab_loadable [of L "fs s" item] by simp
    with Inl show ?thesis by simp
  next
    case (Inr t)
    show ?thesis
    proof (cases "filename t")
      case (Inl e)
      with Inr have "\<not> loadable_entry (fs s) item"
        using item_tab_loadable [of L "fs s" item] by simp
      with Inl Inr show ?thesis by simp
    next
      case (Inr l)
      with \<open>item_tab L (fs s) item = Inr t\<close> have "loadable_entry (fs s) item"
        using item_tab_loadable [of L "fs s" item] by simp
      with Inr \<open>item_tab L (fs s) item = Inr t\<close> Cons.IH [of "addTab t l s"]
      show ?thesis by (simp add: addTab_fs)
    qed
  qed
qed

lemma load_items_tabs:
  assumes "fst (load_items L items s) = None"
  shows "\<exists>ts. tabs (snd (load_items L items s)) = tabs s @ ts
            \<and> map Inr ts = map (item_tab L (fs s)) items"
  using assms
proof (induction items arbitrary: s)
  case Nil
  show ?case by simp
next
  case (Cons item rest)
  show ?case
  proof (cases "item_tab L (fs s) item")
    case (Inl e)
    with Cons.prems show ?thesis by simp
  next
    case (Inr t)
    note t = this
    show ?thesis
    proof (cases "filename t")
      case (Inl e)
      with t Cons.prems show ?thesis by simp
    next
      case (Inr l)
      have step: "load_items L (item # rest) s = load_items L rest (addTab t l s)"
        by (simp add: t Inr)
      with Cons.prems have "fst (load_items L rest (addTab t l s)) = None" by simp
      from Cons.IH [OF this] obtain ts where
        ts: "tabs (snd (load_items L rest (addTab t l s))) = tabs (addTab t l s) @ ts" and
        m: "map Inr ts = map (item_tab L (fs (addTab t l s))) rest" by blast
      have "tabs (snd (load_items L (item # rest) s)) = tabs s @ (t # ts)"
        by (simp only: step ts) (simp add: addTab_def)
      moreover have "map Inr (t # ts) = map (item_tab L (fs s)) (item # rest)"
        using m t by (simp add: addTab_fs)
      ultimately show ?thesis by blast
    qed
  qed
qed

lemma EditorTab_content:
  assumes "EditorTab L d p h = Inr t"
  shows "path t = p
       \<and> (\<forall>m. h = JStr m \<longrightarrow>
             text_edit t = setHtml L m (setStyleSheet L hacker_style (QTextEdit L)))
       \<and> (h = JNull \<and> \<not> truthy p \<longrightarrow>
             text_edit t = setStyleSheet L hacker_style (QTextEdit L))
       \<and> (\<forall>body. h = JNull \<and> truthy p \<and> open_read d p = Inr body \<longrightarrow>
             text_edit t = setPlainText L body (setStyleSheet L hacker_style (QTextEdit L)))"
  using assms
  by (cases h; cases "open_read d p") (auto simp add: EditorTab_def Let_def split: if_splits)

text \<open>
  C9, as the code has it. Let the record parse as a list. A key that an object lacks
  counts as \<^verbatim>\<open>None\<close>. Loading returns exactly when every item is an object whose \<^verbatim>\<open>html\<close>
  is a str, or is \<^verbatim>\<open>None\<close> with a path that is false in Python's truth test or can be
  opened and read, and whose path is false in that test or a str. Loading then adds one
  tab per item, in order, after the tabs there were, and \<open>load_session\<close> adds no other
  tab unless there is none. The tab of an object has the path of the object; its widget
  is a new one with the style sheet of the editor that was given the \<^verbatim>\<open>html\<close> by
  \<^verbatim>\<open>setHtml\<close> when the \<^verbatim>\<open>html\<close> is a str, nothing when there is no \<^verbatim>\<open>html\<close> and the path is
  false in the truth test, and the text of the file of the path by \<^verbatim>\<open>setPlainText\<close> when
  there is no \<^verbatim>\<open>html\<close> and the path is true in that test. So an object with neither key
  gives a tab without content and without path, and an object with \<^verbatim>\<open>html\<close> and no
  \<^verbatim>\<open>path\<close> gives a tab without path that carries that markup.
\<close>

theorem record_of_objects_loads:
  assumes ex: "path_exists (fs s) (SESSION_FILE L)"
      and rd: "open_read (fs s) (JStr (SESSION_FILE L)) = Inr txt"
      and parse: "json_loads L txt = Some (JArr items)"
  shows "(fst (load_stored L s) = None) = list_all (loadable_entry (fs s)) items
       \<and> (fst (load_session L s) = None) = list_all (loadable_entry (fs s)) items
       \<and> (list_all (loadable_entry (fs s)) items \<longrightarrow>
            length (tabs (snd (load_stored L s))) = length (tabs s) + length items
          \<and> take (length (tabs s)) (tabs (snd (load_stored L s))) = tabs s
          \<and> (tabs s \<noteq> [] \<or> items \<noteq> [] \<longrightarrow> load_session L s = load_stored L s)
          \<and> (\<forall>i kvs. i < length items \<and> items ! i = JObj kvs \<longrightarrow>
               (let p = (case map_of kvs ''path'' of None \<Rightarrow> JNull | Some v \<Rightarrow> v);
                    h = (case map_of kvs ''html'' of None \<Rightarrow> JNull | Some v \<Rightarrow> v);
                    t = tabs (snd (load_stored L s)) ! (length (tabs s) + i);
                    w = setStyleSheet L hacker_style (QTextEdit L)
                in path t = p
                 \<and> (\<forall>m. h = JStr m \<longrightarrow> text_edit t = setHtml L m w)
                 \<and> (h = JNull \<and> \<not> truthy p \<longrightarrow> text_edit t = w)
                 \<and> (\<forall>body. h = JNull \<and> truthy p \<and> open_read (fs s) p = Inr body \<longrightarrow>
                       text_edit t = setPlainText L body w))))"
proof -
  have ld: "load_stored L s = load_items L items s"
    unfolding load_stored_def by (simp only: ex rd parse if_True sum.case option.case py_iter.simps)
  have a: "(fst (load_stored L s) = None) = list_all (loadable_entry (fs s)) items"
    by (simp only: ld load_items_returns)
  have b: "(fst (load_session L s) = None) = list_all (loadable_entry (fs s)) items"
  proof -
    obtain e r where r: "load_stored L s = (e, r)" by (cases "load_stored L s")
    have "(fst (load_session L s) = None) = (fst (load_stored L s) = None)"
      by (cases e) (simp_all add: r load_session_def new_tab_eq)
    with a show ?thesis by simp
  qed
  have c: "length (tabs (snd (load_stored L s))) = length (tabs s) + length items
          \<and> take (length (tabs s)) (tabs (snd (load_stored L s))) = tabs s
          \<and> (tabs s \<noteq> [] \<or> items \<noteq> [] \<longrightarrow> load_session L s = load_stored L s)
          \<and> (\<forall>i kvs. i < length items \<and> items ! i = JObj kvs \<longrightarrow>
               (let p = (case map_of kvs ''path'' of None \<Rightarrow> JNull | Some v \<Rightarrow> v);
                    h = (case map_of kvs ''html'' of None \<Rightarrow> JNull | Some v \<Rightarrow> v);
                    t = tabs (snd (load_stored L s)) ! (length (tabs s) + i);
                    w = setStyleSheet L hacker_style (QTextEdit L)
                in path t = p
                 \<and> (\<forall>m. h = JStr m \<longrightarrow> text_edit t = setHtml L m w)
                 \<and> (h = JNull \<and> \<not> truthy p \<longrightarrow> text_edit t = w)
                 \<and> (\<forall>body. h = JNull \<and> truthy p \<and> open_read (fs s) p = Inr body \<longrightarrow>
                       text_edit t = setPlainText L body w)))"
    if ok: "list_all (loadable_entry (fs s)) items"
  proof -
    from ok a have none: "fst (load_stored L s) = None" by simp
    then have "fst (load_items L items s) = None" by (simp add: ld)
    from load_items_tabs [OF this] obtain ts where
      ts: "tabs (snd (load_stored L s)) = tabs s @ ts" and
      m: "map Inr ts = map (item_tab L (fs s)) items" by (auto simp add: ld)
    from m have len: "length ts = length items"
      by (metis length_map)
    have nth: "item_tab L (fs s) (items ! i) = Inr (ts ! i)" if "i < length items" for i
    proof -
      from that len have "map Inr ts ! i = (Inr (ts ! i) :: error + 'a editor_tab)" by simp
      moreover from that have "map (item_tab L (fs s)) items ! i = item_tab L (fs s) (items ! i)"
        by simp
      ultimately show ?thesis using m by simp
    qed
    have 1: "length (tabs (snd (load_stored L s))) = length (tabs s) + length items"
      by (simp add: ts len)
    have 2: "take (length (tabs s)) (tabs (snd (load_stored L s))) = tabs s"
      by (simp add: ts)
    have 3: "tabs s \<noteq> [] \<or> items \<noteq> [] \<longrightarrow> load_session L s = load_stored L s"
    proof
      assume "tabs s \<noteq> [] \<or> items \<noteq> []"
      with 1 have pos: "length (tabs (snd (load_stored L s))) \<noteq> 0" by auto
      obtain e r where r: "load_stored L s = (e, r)" by (cases "load_stored L s")
      with none have "e = None" by simp
      with r pos show "load_session L s = load_stored L s"
        by (simp add: load_session_def)
    qed
    have 4: "\<forall>i kvs. i < length items \<and> items ! i = JObj kvs \<longrightarrow>
               (let p = (case map_of kvs ''path'' of None \<Rightarrow> JNull | Some v \<Rightarrow> v);
                    h = (case map_of kvs ''html'' of None \<Rightarrow> JNull | Some v \<Rightarrow> v);
                    t = tabs (snd (load_stored L s)) ! (length (tabs s) + i);
                    w = setStyleSheet L hacker_style (QTextEdit L)
                in path t = p
                 \<and> (\<forall>m. h = JStr m \<longrightarrow> text_edit t = setHtml L m w)
                 \<and> (h = JNull \<and> \<not> truthy p \<longrightarrow> text_edit t = w)
                 \<and> (\<forall>body. h = JNull \<and> truthy p \<and> open_read (fs s) p = Inr body \<longrightarrow>
                       text_edit t = setPlainText L body w))"
    proof (intro allI impI)
      fix i kvs assume i: "i < length items \<and> items ! i = JObj kvs"
      then have "item_tab L (fs s) (JObj kvs) = Inr (ts ! i)" using nth [of i] by simp
      then have e: "EditorTab L (fs s) (case map_of kvs ''path'' of None \<Rightarrow> JNull | Some v \<Rightarrow> v)
          (case map_of kvs ''html'' of None \<Rightarrow> JNull | Some v \<Rightarrow> v) = Inr (ts ! i)"
        by (simp only: item_tab_object)
      have t: "tabs (snd (load_stored L s)) ! (length (tabs s) + i) = ts ! i"
        by (simp add: ts)
      show "(let p = (case map_of kvs ''path'' of None \<Rightarrow> JNull | Some v \<Rightarrow> v);
                    h = (case map_of kvs ''html'' of None \<Rightarrow> JNull | Some v \<Rightarrow> v);
                    t = tabs (snd (load_stored L s)) ! (length (tabs s) + i);
                    w = setStyleSheet L hacker_style (QTextEdit L)
                in path t = p
                 \<and> (\<forall>m. h = JStr m \<longrightarrow> text_edit t = setHtml L m w)
                 \<and> (h = JNull \<and> \<not> truthy p \<longrightarrow> text_edit t = w)
                 \<and> (\<forall>body. h = JNull \<and> truthy p \<and> open_read (fs s) p = Inr body \<longrightarrow>
                       text_edit t = setPlainText L body w))"
        unfolding Let_def t by (rule EditorTab_content [OF e])
    qed
    from 1 2 3 4 show ?thesis by (intro conjI)
  qed
  show ?thesis
  proof (intro conjI)
    show "(fst (load_stored L s) = None) = list_all (loadable_entry (fs s)) items" by (rule a)
    show "(fst (load_session L s) = None) = list_all (loadable_entry (fs s)) items" by (rule b)
  qed (rule impI, rule c)
qed

lemma mixed_fs_fields:
  "path_exists (mixed_fs code) (SESSION_FILE demo)"
  "open_read (mixed_fs code) (JStr (SESSION_FILE demo)) = Inr mixed_text"
  "files (mixed_fs code) (SESSION_FILE demo) = Some (Inr mixed_text)"
  "open_read (mixed_fs code) (JStr ''/tmp/notes.txt'') = Inr ''milk''"
  "open_read (mixed_fs code) (JStr ''/tmp/x.py'') = Inr code"
  by (simp_all add: demo_session_file path_exists_def mixed_fs_def empty_fs_def)

lemma demo_loads_mixed:
  "json_loads demo mixed_text =
     Some (JArr [JObj [(''path'', JStr ''/tmp/x.py''), (''html'', JStr ''<b>hello</b>'')],
                 JObj [(''path'', JStr ''/tmp/notes.txt'')], JObj [],
                 JObj [(''html'', JStr ''<i>x</i>'')]])"
  by (simp add: demo_fields demo_loads_def mixed_text_def sample_text_def pathonly_text_def
      mixed_data_def)

lemma startup_tabs: "tabs (startup d) = []"
  by (simp add: startup_def)

theorem record_of_objects_loads_witness:
  "path_exists (fs (startup (mixed_fs ''print(1)'') :: string editor)) (SESSION_FILE demo)
   \<and> open_read (fs (startup (mixed_fs ''print(1)'') :: string editor)) (JStr (SESSION_FILE demo)) =
        Inr mixed_text
   \<and> json_loads demo mixed_text =
       Some (JArr [JObj [(''path'', JStr ''/tmp/x.py''), (''html'', JStr ''<b>hello</b>'')],
                   JObj [(''path'', JStr ''/tmp/notes.txt'')], JObj [],
                   JObj [(''html'', JStr ''<i>x</i>'')]])
   \<and> open_read (fs (startup (mixed_fs ''print(1)'') :: string editor)) (JStr ''/tmp/notes.txt'') =
        Inr ''milk''
   \<and> list_all (loadable_entry (fs (startup (mixed_fs ''print(1)'') :: string editor)))
        [JObj [(''path'', JStr ''/tmp/x.py''), (''html'', JStr ''<b>hello</b>'')],
         JObj [(''path'', JStr ''/tmp/notes.txt'')], JObj [],
         JObj [(''html'', JStr ''<i>x</i>'')]]
   \<and> fst (load_session demo (startup (mixed_fs ''print(1)''))) = None
   \<and> load_session demo (startup (mixed_fs ''print(1)'')) =
       load_stored demo (startup (mixed_fs ''print(1)''))
   \<and> tabs (snd (load_stored demo (startup (mixed_fs ''print(1)'')))) =
        [\<lparr>text_edit = ''<b>hello</b>'', path = JStr ''/tmp/x.py''\<rparr>,
         \<lparr>text_edit = ''milk'', path = JStr ''/tmp/notes.txt''\<rparr>,
         \<lparr>text_edit = [], path = JNull\<rparr>,
         \<lparr>text_edit = ''<i>x</i>'', path = JNull\<rparr>]"
proof -
  let ?s = "startup (mixed_fs ''print(1)'') :: string editor"
  let ?items = "[JObj [(''path'', JStr ''/tmp/x.py''), (''html'', JStr ''<b>hello</b>'')],
         JObj [(''path'', JStr ''/tmp/notes.txt'')], JObj [],
         JObj [(''html'', JStr ''<i>x</i>'')]]"
  let ?R = "tabs (snd (load_stored demo ?s))"
  have a: "path_exists (fs ?s) (SESSION_FILE demo)"
    by (simp only: startup_fs mixed_fs_fields)
  have b: "open_read (fs ?s) (JStr (SESSION_FILE demo)) = Inr mixed_text"
    by (simp only: startup_fs mixed_fs_fields)
  have c: "json_loads demo mixed_text = Some (JArr ?items)"
    by (rule demo_loads_mixed)
  have r: "open_read (fs ?s) (JStr ''/tmp/notes.txt'') = Inr ''milk''"
    by (simp only: startup_fs mixed_fs_fields)
  have "readable (fs ?s) (JStr ''/tmp/notes.txt'')"
    by (simp only: readable_def r sum.case)
  then have d: "list_all (loadable_entry (fs ?s)) ?items"
    by (simp add: loadable_entry_def)
  note th = record_of_objects_loads [OF a b c]
  from th d have g: "fst (load_session demo ?s) = None" by simp
  note ok = th [THEN conjunct2, THEN conjunct2, THEN mp, OF d]
  from ok have len: "length ?R = 4" by (simp add: startup_tabs)
  from ok have same: "load_session demo ?s = load_stored demo ?s" by simp
  note at = ok [THEN conjunct2, THEN conjunct2, THEN conjunct2, rule_format]
  have 0: "?R ! 0 = \<lparr>text_edit = ''<b>hello</b>'', path = JStr ''/tmp/x.py''\<rparr>"
    using at [of 0 "[(''path'', JStr ''/tmp/x.py''), (''html'', JStr ''<b>hello</b>'')]"]
    by (intro editor_tab.equality) (simp_all add: Let_def startup_tabs demo_fields eval_nat_numeral)
  have 1: "?R ! 1 = \<lparr>text_edit = ''milk'', path = JStr ''/tmp/notes.txt''\<rparr>"
    using at [of 1 "[(''path'', JStr ''/tmp/notes.txt'')]"] r
    by (intro editor_tab.equality) (simp_all add: Let_def startup_tabs demo_fields eval_nat_numeral)
  have 2: "?R ! 2 = \<lparr>text_edit = [], path = JNull\<rparr>"
    using at [of 2 "[]"]
    by (intro editor_tab.equality) (simp_all add: Let_def startup_tabs demo_fields eval_nat_numeral)
  have 3: "?R ! 3 = \<lparr>text_edit = ''<i>x</i>'', path = JNull\<rparr>"
    using at [of 3 "[(''html'', JStr ''<i>x</i>'')]"]
    by (intro editor_tab.equality) (simp_all add: Let_def startup_tabs demo_fields eval_nat_numeral)
  have all: "?R = [\<lparr>text_edit = ''<b>hello</b>'', path = JStr ''/tmp/x.py''\<rparr>,
         \<lparr>text_edit = ''milk'', path = JStr ''/tmp/notes.txt''\<rparr>,
         \<lparr>text_edit = [], path = JNull\<rparr>,
         \<lparr>text_edit = ''<i>x</i>'', path = JNull\<rparr>]"
  proof (rule nth_equalityI)
    show "length ?R = length [\<lparr>text_edit = ''<b>hello</b>'', path = JStr ''/tmp/x.py''\<rparr>,
         \<lparr>text_edit = ''milk'', path = JStr ''/tmp/notes.txt''\<rparr>,
         \<lparr>text_edit = [], path = JNull\<rparr>,
         \<lparr>text_edit = ''<i>x</i>'', path = JNull\<rparr>]"
      by (simp add: len)
  next
    fix i assume "i < length ?R"
    with len have "i = 0 \<or> i = 1 \<or> i = 2 \<or> i = 3" by arith
    then show "?R ! i = [\<lparr>text_edit = ''<b>hello</b>'', path = JStr ''/tmp/x.py''\<rparr>,
         \<lparr>text_edit = ''milk'', path = JStr ''/tmp/notes.txt''\<rparr>,
         \<lparr>text_edit = [], path = JNull\<rparr>,
         \<lparr>text_edit = ''<i>x</i>'', path = JNull\<rparr>] ! i"
      using 0 1 2 3 by (elim disjE) simp_all
  qed
  from a b c r d g same all show ?thesis by (intro conjI)
qed

text \<open>
  The claim as stated fails: the record \<^verbatim>\<open>[{"path": "/tmp/gone.txt"}]\<close> is a list of one
  object without the \<^verbatim>\<open>html\<close> key; with no such file, loading raises
  \<^verbatim>\<open>FileNotFoundError\<close>.
\<close>

theorem path_without_html_counterexample:
  "demo_loads pathonly_text = Some (JArr [JObj [(''path'', JStr ''/tmp/gone.txt'')]])
   \<and> files (fs_with pathonly_text) ''/tmp/gone.txt'' = None
   \<and> fst (HackerEditor_init demo (fs_with pathonly_text)) = Some FileNotFoundError"
proof -
  have p: "demo_loads pathonly_text = Some (JArr [JObj [(''path'', JStr ''/tmp/gone.txt'')]])"
    by (simp add: demo_loads_def pathonly_text_def sample_text_def pathonly_data_def)
  have g: "files (fs_with pathonly_text) ''/tmp/gone.txt'' = None"
    by (simp add: fs_with_def empty_fs_def)
  have t: "item_tab demo (fs_with pathonly_text) (JObj [(''path'', JStr ''/tmp/gone.txt'')]) =
      Inl FileNotFoundError"
    by (simp add: item_tab_def EditorTab_def g)
  have "load_stored demo (startup (fs_with pathonly_text)) =
      (Some FileNotFoundError, startup (fs_with pathonly_text))"
    unfolding load_stored_def
    by (simp only: startup_fs fs_with_session if_True sum.case demo_fields p option.case
        py_iter.simps load_items.simps t)
  with p g show ?thesis
    by (simp add: HackerEditor_init_def load_session_def)
qed

subsection \<open>The stored markup wins over the file\<close>

















end
